theory Spec2Isabelle
  imports Main "HOL-Library.Multiset"
begin

section \<open>Exceptions\<close>

text \<open>
  The services signal failure by throwing. A thrown value is an element of \<open>exn\<close>, and a
  function that can throw returns \<open>exn + 'a\<close> with \<open>Inl\<close> for the thrown value.
  The Nest exception classes differ only in their HTTP status, so \<open>ConflictException m\<close> is
  \<open>HttpException m CONFLICT\<close>, and so on.
\<close>

datatype http_status =
  BAD_REQUEST | UNAUTHORIZED | FORBIDDEN | NOT_FOUND | CONFLICT | INTERNAL_SERVER_ERROR

datatype exn =
    HttpException string http_status
  | PrismaClientKnownRequestError string string
  | OtherError string

definition ConflictException :: "string \<Rightarrow> exn" where
  "ConflictException m = HttpException m CONFLICT"

definition UnauthorizedException :: "string \<Rightarrow> exn" where
  "UnauthorizedException m = HttpException m UNAUTHORIZED"

definition ForbiddenException :: "string \<Rightarrow> exn" where
  "ForbiddenException m = HttpException m FORBIDDEN"

definition NotFoundException :: "string \<Rightarrow> exn" where
  "NotFoundException m = HttpException m NOT_FOUND"

text \<open>
  \<open>handlePrismaError\<close> never returns: it throws. The model returns the value it throws.
  The first argument of \<open>PrismaClientKnownRequestError\<close> is \<open>error.code\<close>, the second is
  \<open>error.meta.target\<close>.
\<close>

fun handlePrismaError :: "exn \<Rightarrow> exn" where
  "handlePrismaError (PrismaClientKnownRequestError code target) =
     (if code = ''P2002'' then HttpException (''Duplicate field value: '' @ target) CONFLICT
      else if code = ''P2025'' then HttpException ''Record not found'' NOT_FOUND
      else if code = ''P2003'' then HttpException ''Foreign key constraint failed'' BAD_REQUEST
      else HttpException ''Database error occurred'' INTERNAL_SERVER_ERROR)"
| "handlePrismaError e = e"

section \<open>The record store\<close>

record user =
  user_id :: string
  user_email :: string
  user_password :: string
  user_name :: string
  user_refreshToken :: "string option"

record post =
  post_id :: string
  post_title :: string
  post_content :: string
  post_published :: bool
  post_fileUrl :: "string option"
  post_authorId :: string
  post_createdAt :: nat
  post_updatedAt :: nat

record reply =
  reply_id :: string
  reply_content :: string
  reply_postId :: string
  reply_authorId :: string
  reply_createdAt :: nat

record database =
  users :: "user list"
  posts :: "post list"
  replies :: "reply list"

text \<open>
  The selection \<open>{ id, email, name }\<close> of a user, which is also the \<open>user\<close> object that
  register and login return. It has no password field.
\<close>

record user_summary =
  summary_id :: string
  summary_email :: string
  summary_name :: string

definition summary :: "user \<Rightarrow> user_summary" where
  "summary u = \<lparr>summary_id = user_id u, summary_email = user_email u, summary_name = user_name u\<rparr>"

text \<open>
  The table definitions of the store are not part of the sources. What the services depend
  on is taken as a parameter: whether deleting a post also deletes its replies, the value of
  \<open>published\<close> when a post is created without one, and the store's answer to a negative
  \<open>skip\<close> or \<open>take\<close>. (A store that refuses to delete a post with replies is excluded by the
  end-to-end test, which deletes a post after replying to it and expects success.)
\<close>

record schema =
  cascadeReplies :: bool
  publishedDefault :: bool
  negativePaging :: "post list \<Rightarrow> int \<Rightarrow> int \<Rightarrow> exn + post list"

subsection \<open>Users\<close>

definition user_findUnique_email :: "database \<Rightarrow> string \<Rightarrow> user option" where
  "user_findUnique_email d e = find (\<lambda>u. user_email u = e) (users d)"

definition user_findUnique_id :: "database \<Rightarrow> string \<Rightarrow> user option" where
  "user_findUnique_id d i = find (\<lambda>u. user_id u = i) (users d)"

text \<open>
  \<open>user.create\<close>: the store chooses the id (\<open>newId\<close>); email and id are unique, and a
  violation is the known request error P2002. The refresh-token hash starts as null.
\<close>

definition user_create ::
  "database \<Rightarrow> string \<Rightarrow> string \<Rightarrow> string \<Rightarrow> string \<Rightarrow> exn + user \<times> database" where
  "user_create d newId e pw n =
     (if user_findUnique_email d e \<noteq> None then Inl (PrismaClientKnownRequestError ''P2002'' ''email'')
      else if user_findUnique_id d newId \<noteq> None then Inl (PrismaClientKnownRequestError ''P2002'' ''id'')
      else
        let u = \<lparr>user_id = newId, user_email = e, user_password = pw, user_name = n,
                 user_refreshToken = None\<rparr>
        in Inr (u, d\<lparr>users := users d @ [u]\<rparr>))"

text \<open>\<open>user.update\<close> with \<open>data: { refreshToken: v }\<close>; P2025 when no record has the id.\<close>

definition user_update_refreshToken ::
  "database \<Rightarrow> string \<Rightarrow> string option \<Rightarrow> exn + database" where
  "user_update_refreshToken d i v =
     (if user_findUnique_id d i = None then Inl (PrismaClientKnownRequestError ''P2025'' '''')
      else Inr (d\<lparr>users := map (\<lambda>u. if user_id u = i then u\<lparr>user_refreshToken := v\<rparr> else u)
                                 (users d)\<rparr>))"

subsection \<open>Posts\<close>

definition post_findUnique :: "database \<Rightarrow> string \<Rightarrow> post option" where
  "post_findUnique d i = find (\<lambda>p. post_id p = i) (posts d)"

definition author_of :: "database \<Rightarrow> string \<Rightarrow> user_summary option" where
  "author_of d i = map_option summary (user_findUnique_id d i)"


record updatePostDto =
  update_title :: "string option"
  update_content :: "string option"
  update_published :: "bool option"


text \<open>
  A partial update: a field that the DTO leaves undefined keeps its value. The update
  timestamp of the data model is set to the time of the write.
\<close>

definition apply_update :: "nat \<Rightarrow> updatePostDto \<Rightarrow> post \<Rightarrow> post" where
  "apply_update now dto p =
     p\<lparr>post_title := (case update_title dto of None \<Rightarrow> post_title p | Some t \<Rightarrow> t),
       post_content := (case update_content dto of None \<Rightarrow> post_content p | Some c \<Rightarrow> c),
       post_published := (case update_published dto of None \<Rightarrow> post_published p | Some b \<Rightarrow> b),
       post_updatedAt := now\<rparr>"

definition post_update ::
  "database \<Rightarrow> nat \<Rightarrow> string \<Rightarrow> updatePostDto \<Rightarrow> exn + post \<times> database" where
  "post_update d now i dto =
     (case post_findUnique d i of
        None \<Rightarrow> Inl (PrismaClientKnownRequestError ''P2025'' '''')
      | Some p \<Rightarrow>
          Inr (apply_update now dto p,
               d\<lparr>posts := map (\<lambda>q. if post_id q = i then apply_update now dto q else q) (posts d)\<rparr>))"

definition post_delete :: "schema \<Rightarrow> database \<Rightarrow> string \<Rightarrow> exn + database" where
  "post_delete S d i =
     (if post_findUnique d i = None then Inl (PrismaClientKnownRequestError ''P2025'' '''')
      else Inr (d\<lparr>posts := filter (\<lambda>p. post_id p \<noteq> i) (posts d),
                  replies := (if cascadeReplies S then filter (\<lambda>r. reply_postId r \<noteq> i) (replies d)
                              else replies d)\<rparr>))"

text \<open>
  \<open>contains s t\<close>: the string \<open>t\<close> occurs in \<open>s\<close> (the store's substring match).
\<close>

fun contains :: "string \<Rightarrow> string \<Rightarrow> bool" where
  "contains [] t = (t = [])"
| "contains (c # cs) t = (take (length t) (c # cs) = t \<or> contains cs t)"

text \<open>\<open>orderBy: { createdAt: 'desc' }\<close>.\<close>

definition newest_first :: "post list \<Rightarrow> post list" where
  "newest_first ps = rev (sort_key post_createdAt ps)"

definition post_findMany ::
  "schema \<Rightarrow> database \<Rightarrow> (post \<Rightarrow> bool) \<Rightarrow> int \<Rightarrow> int \<Rightarrow> exn + post list" where
  "post_findMany S d wh skip tk =
     (let ordered = newest_first (filter wh (posts d))
      in if skip < 0 \<or> tk < 0 then negativePaging S ordered skip tk
         else Inr (take (nat tk) (drop (nat skip) ordered)))"

definition post_count :: "database \<Rightarrow> (post \<Rightarrow> bool) \<Rightarrow> nat" where
  "post_count d wh = length (filter wh (posts d))"

subsection \<open>Replies\<close>

definition reply_findUnique :: "database \<Rightarrow> string \<Rightarrow> reply option" where
  "reply_findUnique d i = find (\<lambda>r. reply_id r = i) (replies d)"

definition reply_delete :: "database \<Rightarrow> string \<Rightarrow> exn + database" where
  "reply_delete d i =
     (if reply_findUnique d i = None then Inl (PrismaClientKnownRequestError ''P2025'' '''')
      else Inr (d\<lparr>replies := filter (\<lambda>r. reply_id r \<noteq> i) (replies d)\<rparr>))"

section \<open>Libraries and configuration\<close>

text \<open>
  Token signing, password hashing and mail delivery are libraries, and the secrets come from
  the process environment. The services are modelled over any behaviour of these:
  \<^item> \<open>jwt_signAsync R payload expiresIn secret now\<close> is the token signed at clock time
    \<open>now\<close> (in seconds) with a lifetime of \<open>expiresIn\<close> seconds;
  \<^item> \<open>jwt_verify R token secret now\<close> is the payload of a token whose signature and expiry
    are accepted at time \<open>now\<close>, and \<open>None\<close> when verification throws; the secret is
    passed as the caller gives it, so it may be undefined;
  \<^item> \<open>bcrypt_hash R data rounds salt\<close> is the hash of \<open>data\<close> under the salt drawn for
    this call, and \<open>bcrypt_compare R data hash\<close> is the comparison;
  \<^item> \<open>transporter R\<close> is the mail transport, undefined when its initialisation failed;
    sending either rejects with a message or resolves with the delivery information.
\<close>

record jwt_payload =
  sub :: string
  email :: string

record tokens =
  accessToken :: string
  refreshToken :: string

record auth_result = tokens +
  user :: user_summary

record mail =
  mail_to :: string
  mail_subject :: string
  mail_data :: "string list"

record mail_info =
  messageId :: string
  previewUrl :: string

datatype log_entry = Log string | LogError string string

record runtime =
  jwt_signAsync :: "jwt_payload \<Rightarrow> nat \<Rightarrow> string \<Rightarrow> nat \<Rightarrow> string"
  jwt_verify :: "string \<Rightarrow> string option \<Rightarrow> nat \<Rightarrow> jwt_payload option"
  bcrypt_hash :: "string \<Rightarrow> nat \<Rightarrow> nat \<Rightarrow> string"
  bcrypt_compare :: "string \<Rightarrow> string \<Rightarrow> bool"
  JWT_SECRET :: "string option"
  JWT_REFRESH_SECRET :: "string option"
  transporter :: "(mail \<Rightarrow> string + mail_info) option"

text \<open>\<open>v || d\<close> on an environment variable: undefined and the empty string are falsy.\<close>

definition or_default :: "string option \<Rightarrow> string \<Rightarrow> string" where
  "or_default v d = (case v of None \<Rightarrow> d | Some s \<Rightarrow> if s = [] then d else s)"

section \<open>MailService\<close>

text \<open>
  Each send runs inside \<open>try\<close>/\<open>catch\<close>: whatever goes wrong is logged and the function
  returns undefined. The result is the returned value and the lines written to the log.
\<close>

definition deliver ::
  "runtime \<Rightarrow> mail \<Rightarrow> string \<Rightarrow> string \<Rightarrow> mail_info option \<times> log_entry list" where
  "deliver R m sent failed =
     (case transporter R of
        None \<Rightarrow> (None, [LogError failed ''Cannot read properties of undefined''])
      | Some sendMail \<Rightarrow>
          (case sendMail m of
             Inl message \<Rightarrow> (None, [LogError failed message])
           | Inr info \<Rightarrow> (Some info, [Log sent, Log (''Preview URL: '' @ previewUrl info)])))"

definition welcome_mail :: "string \<Rightarrow> string \<Rightarrow> mail" where
  "welcome_mail to name =
     \<lparr>mail_to = to, mail_subject = ''Welcome to Task Manager!'', mail_data = [name]\<rparr>"


definition MailService_sendWelcomeEmail ::
  "runtime \<Rightarrow> string \<Rightarrow> string \<Rightarrow> mail_info option \<times> log_entry list" where
  "MailService_sendWelcomeEmail R to name =
     deliver R (welcome_mail to name)
       (''Welcome email sent to '' @ to)
       (''Failed to send welcome email to '' @ to @ '':'')"


section \<open>AuthService\<close>

record registerDto =
  register_email :: string
  register_password :: string
  register_name :: string

record loginDto =
  login_email :: string
  login_password :: string

text \<open>\<open>expiresIn\<close> is 15 minutes for the access token and 7 days for the refresh token.\<close>

definition generateTokens :: "runtime \<Rightarrow> nat \<Rightarrow> string \<Rightarrow> string \<Rightarrow> tokens" where
  "generateTokens R now userId mail_address =
     (let payload = \<lparr>sub = userId, email = mail_address\<rparr>
      in \<lparr>accessToken =
            jwt_signAsync R payload (15 * 60)
              (or_default (JWT_SECRET R) ''your-secret-key-change-in-production'') now,
          refreshToken =
            jwt_signAsync R payload (7 * 24 * 60 * 60)
              (or_default (JWT_REFRESH_SECRET R) ''your-refresh-secret-key'') now\<rparr>)"

definition updateRefreshToken ::
  "runtime \<Rightarrow> nat \<Rightarrow> database \<Rightarrow> string \<Rightarrow> string \<Rightarrow> exn + database" where
  "updateRefreshToken R salt d userId token =
     (let hashedRefreshToken = bcrypt_hash R token 10 salt
      in user_update_refreshToken d userId (Some hashedRefreshToken))"

text \<open>
  \<open>register\<close>: the whole body is inside \<open>try\<close>, and the handler rethrows through
  \<open>handlePrismaError\<close>. There is no transaction, so what was written before a failure stays.
  The welcome mail is started and not awaited; its only trace is the log.
\<close>

definition AuthService_register ::
  "runtime \<Rightarrow> nat \<Rightarrow> nat \<Rightarrow> nat \<Rightarrow> string \<Rightarrow> database \<Rightarrow> registerDto
     \<Rightarrow> (exn + auth_result) \<times> database \<times> log_entry list" where
  "AuthService_register R now salt1 salt2 newId d dto =
     (case user_findUnique_email d (register_email dto) of
        Some existingUser \<Rightarrow>
          (Inl (handlePrismaError (ConflictException ''Email already exists'')), d, [])
      | None \<Rightarrow>
          let hashedPassword = bcrypt_hash R (register_password dto) 10 salt1
          in (case user_create d newId (register_email dto) hashedPassword (register_name dto) of
                Inl e \<Rightarrow> (Inl (handlePrismaError e), d, [])
              | Inr (u, d1) \<Rightarrow>
                  let toks = generateTokens R now (user_id u) (user_email u)
                  in (case updateRefreshToken R salt2 d1 (user_id u) (refreshToken toks) of
                        Inl e \<Rightarrow> (Inl (handlePrismaError e), d1, [])
                      | Inr d2 \<Rightarrow>
                          (Inr \<lparr>accessToken = accessToken toks, refreshToken = refreshToken toks,
                                user = summary u\<rparr>,
                           d2,
                           snd (MailService_sendWelcomeEmail R (user_email u) (user_name u))))))"

text \<open>\<open>login\<close> has no handler: an error of the store propagates as it is.\<close>

definition AuthService_login ::
  "runtime \<Rightarrow> nat \<Rightarrow> nat \<Rightarrow> database \<Rightarrow> loginDto \<Rightarrow> (exn + auth_result) \<times> database" where
  "AuthService_login R now salt d dto =
     (case user_findUnique_email d (login_email dto) of
        None \<Rightarrow> (Inl (UnauthorizedException ''Invalid credentials''), d)
      | Some u \<Rightarrow>
          if \<not> bcrypt_compare R (login_password dto) (user_password u)
          then (Inl (UnauthorizedException ''Invalid credentials''), d)
          else
            let toks = generateTokens R now (user_id u) (user_email u)
            in (case updateRefreshToken R salt d (user_id u) (refreshToken toks) of
                  Inl e \<Rightarrow> (Inl e, d)
                | Inr d' \<Rightarrow>
                    (Inr \<lparr>accessToken = accessToken toks, refreshToken = refreshToken toks,
                          user = summary u\<rparr>, d')))"

text \<open>
  The body of \<open>refreshToken\<close>'s \<open>try\<close> block. \<open>!user.refreshToken\<close> holds for null and for
  the empty string.
\<close>

definition refreshToken_body ::
  "runtime \<Rightarrow> nat \<Rightarrow> nat \<Rightarrow> database \<Rightarrow> string \<Rightarrow> (exn + tokens) \<times> database" where
  "refreshToken_body R now salt d token =
     (case jwt_verify R token (JWT_REFRESH_SECRET R) now of
        None \<Rightarrow> (Inl (OtherError ''JsonWebTokenError''), d)
      | Some payload \<Rightarrow>
          (case user_findUnique_id d (sub payload) of
             None \<Rightarrow> (Inl (UnauthorizedException ''Access denied''), d)
           | Some u \<Rightarrow>
               (case user_refreshToken u of
                  None \<Rightarrow> (Inl (UnauthorizedException ''Access denied''), d)
                | Some stored \<Rightarrow>
                    if stored = [] then (Inl (UnauthorizedException ''Access denied''), d)
                    else if \<not> bcrypt_compare R token stored
                    then (Inl (UnauthorizedException ''Invalid refresh token''), d)
                    else
                      let toks = generateTokens R now (user_id u) (user_email u)
                      in (case updateRefreshToken R salt d (user_id u) (refreshToken toks) of
                            Inl e \<Rightarrow> (Inl e, d)
                          | Inr d' \<Rightarrow> (Inr toks, d')))))"

text \<open>The handler replaces every exception of the body by one Unauthorized exception.\<close>

definition AuthService_refreshToken ::
  "runtime \<Rightarrow> nat \<Rightarrow> nat \<Rightarrow> database \<Rightarrow> string \<Rightarrow> (exn + tokens) \<times> database" where
  "AuthService_refreshToken R now salt d token =
     (case refreshToken_body R now salt d token of
        (Inl e, d') \<Rightarrow> (Inl (UnauthorizedException ''Invalid or expired refresh token''), d')
      | (Inr toks, d') \<Rightarrow> (Inr toks, d'))"

definition AuthService_logout :: "database \<Rightarrow> string \<Rightarrow> (exn + string) \<times> database" where
  "AuthService_logout d userId =
     (case user_update_refreshToken d userId None of
        Inl e \<Rightarrow> (Inl e, d)
      | Inr d' \<Rightarrow> (Inr ''Logged out successfully'', d'))"

section \<open>JwtStrategy\<close>

record req_user =
  userId :: string
  req_email :: string
  req_name :: string

definition JwtStrategy_validate :: "database \<Rightarrow> jwt_payload \<Rightarrow> exn + req_user" where
  "JwtStrategy_validate d payload =
     (case user_findUnique_id d (sub payload) of
        None \<Rightarrow> Inl (UnauthorizedException ''User not found'')
      | Some u \<Rightarrow> Inr \<lparr>userId = user_id u, req_email = user_email u, req_name = user_name u\<rparr>)"

text \<open>
  Modelled from the spec: the guard class and the passport strategy that run
  \<open>JwtStrategy.validate\<close> are not in the sources. With the options the constructor passes
  (\<open>ignoreExpiration: false\<close>, \<open>secretOrKey\<close>), the bearer token's signature and expiry are
  verified against the access secret; a token that fails is answered Unauthorized, and the
  payload of one that passes is handed to \<open>validate\<close>, whose result becomes \<open>req.user\<close>.
\<close>

definition JwtAuthGuard :: "runtime \<Rightarrow> nat \<Rightarrow> database \<Rightarrow> string \<Rightarrow> exn + req_user" where
  "JwtAuthGuard R now d bearer =
     (case jwt_verify R bearer
             (Some (or_default (JWT_SECRET R) ''your-secret-key-change-in-production'')) now of
        None \<Rightarrow> Inl (UnauthorizedException ''Unauthorized'')
      | Some payload \<Rightarrow> JwtStrategy_validate d payload)"

section \<open>PostsService\<close>


record page_result =
  result_posts :: "(post \<times> user_summary option \<times> nat) list"
  result_total :: nat
  result_page :: int
  result_limit :: int
  result_totalPages :: "int option"

text \<open>
  The filter of \<open>findAll\<close>: an undefined or empty search string selects every post.
\<close>

definition search_filter :: "string option \<Rightarrow> post \<Rightarrow> bool" where
  "search_filter search p =
     (case search of
        None \<Rightarrow> True
      | Some s \<Rightarrow> if s = [] then True else contains (post_title p) s \<or> contains (post_content p) s)"

definition reply_count :: "database \<Rightarrow> post \<Rightarrow> nat" where
  "reply_count d p = length (filter (\<lambda>r. reply_postId r = post_id p) (replies d))"

text \<open>
  \<open>Math.ceil(total / limit)\<close> on integers; \<open>None\<close> stands for the results that are not
  finite (\<open>limit = 0\<close>).
\<close>

definition ceil_div :: "nat \<Rightarrow> int \<Rightarrow> int option" where
  "ceil_div n lim = (if lim = 0 then None else Some (- ((- int n) div lim)))"

definition PostsService_findAll ::
  "schema \<Rightarrow> database \<Rightarrow> int \<Rightarrow> int \<Rightarrow> string option \<Rightarrow> exn + page_result" where
  "PostsService_findAll S d page lim search =
     (let skip = (page - 1) * lim;
          wh = search_filter search
      in case post_findMany S d wh skip lim of
           Inl e \<Rightarrow> Inl (handlePrismaError e)
         | Inr ps \<Rightarrow>
             Inr \<lparr>result_posts = map (\<lambda>p. (p, author_of d (post_authorId p), reply_count d p)) ps,
                  result_total = post_count d wh,
                  result_page = page,
                  result_limit = lim,
                  result_totalPages = ceil_div (post_count d wh) lim\<rparr>)"

definition PostsService_update ::
  "database \<Rightarrow> nat \<Rightarrow> string \<Rightarrow> string \<Rightarrow> updatePostDto
     \<Rightarrow> (exn + post \<times> user_summary option) \<times> database" where
  "PostsService_update d now i uid dto =
     (case post_findUnique d i of
        None \<Rightarrow> (Inl (handlePrismaError (NotFoundException ''Post not found'')), d)
      | Some p \<Rightarrow>
          if post_authorId p \<noteq> uid
          then (Inl (handlePrismaError (ForbiddenException ''You can only update your own posts'')), d)
          else (case post_update d now i dto of
                  Inl e \<Rightarrow> (Inl (handlePrismaError e), d)
                | Inr (updatedPost, d') \<Rightarrow>
                    (Inr (updatedPost, author_of d' (post_authorId updatedPost)), d')))"

definition PostsService_remove ::
  "schema \<Rightarrow> database \<Rightarrow> string \<Rightarrow> string \<Rightarrow> (exn + string) \<times> database" where
  "PostsService_remove S d i uid =
     (case post_findUnique d i of
        None \<Rightarrow> (Inl (handlePrismaError (NotFoundException ''Post not found'')), d)
      | Some p \<Rightarrow>
          if post_authorId p \<noteq> uid
          then (Inl (handlePrismaError (ForbiddenException ''You can only delete your own posts'')), d)
          else (case post_delete S d i of
                  Inl e \<Rightarrow> (Inl (handlePrismaError e), d)
                | Inr d' \<Rightarrow> (Inr ''Post deleted successfully'', d')))"

definition PostsService_deleteReply ::
  "database \<Rightarrow> string \<Rightarrow> string \<Rightarrow> (exn + string) \<times> database" where
  "PostsService_deleteReply d replyId uid =
     (case reply_findUnique d replyId of
        None \<Rightarrow> (Inl (handlePrismaError (NotFoundException ''Reply not found'')), d)
      | Some r \<Rightarrow>
          if reply_authorId r \<noteq> uid
          then (Inl (handlePrismaError (ForbiddenException ''You can only delete your own replies'')), d)
          else (case reply_delete d replyId of
                  Inl e \<Rightarrow> (Inl (handlePrismaError e), d)
                | Inr d' \<Rightarrow> (Inr ''Reply deleted successfully'', d')))"

section \<open>PostsController\<close>

text \<open>
  \<open>DELETE /posts/:postId/reply/:replyId\<close>, behind the guard: \<open>req\<close> is the identity that the
  guard attached to the request.
\<close>

definition PostsController_deleteReply ::
  "database \<Rightarrow> string \<Rightarrow> string \<Rightarrow> req_user \<Rightarrow> (exn + string) \<times> database" where
  "PostsController_deleteReply d postId replyId req = PostsService_deleteReply d replyId (userId req)"

section \<open>An executable instance of the libraries\<close>

text \<open>
  To run the services on concrete inputs, a small instance of the library interface.

  A token is the header of a signed token, a dot, the JSON text of the claims (subject,
  email, issue time, expiry), a dot, and the signing secret in the place of the signature.
  Numbers are written in binary, least significant bit first, and the claims are not
  base64-encoded, which would only lengthen them. Signing depends on the payload, the
  lifetime, the secret and the clock second only, as a keyed signature over these claims
  does.

  A hash is the salt, \<open>$\<close> and the first 72 bytes of the data, and the comparison reads
  the first 72 bytes of what it is given: bcrypt uses no more of its input.
\<close>

fun bits :: "nat \<Rightarrow> string" where
  "bits n = (if n = 0 then [] else (if odd n then CHR ''1'' else CHR ''0'') # bits (n div 2))"

declare bits.simps [simp del]

fun unbits :: "string \<Rightarrow> nat" where
  "unbits [] = 0"
| "unbits (c # cs) = (if c = CHR ''1'' then 1 else 0) + 2 * unbits cs"

definition quote :: char where
  "quote = CHR 0x22"

definition jwt_header :: string where
  "jwt_header = ''eyJhbGciOiJIUzI1NiIsInR5cCI6IkpXVCJ9''"

definition json_key :: "string \<Rightarrow> string" where
  "json_key k = [quote] @ k @ [quote] @ '':''"

definition claims_text :: "jwt_payload \<Rightarrow> nat \<Rightarrow> nat \<Rightarrow> string" where
  "claims_text payload iat exp =
     ''{'' @ json_key ''sub'' @ [quote] @ sub payload @ [quote]
       @ '','' @ json_key ''email'' @ [quote] @ email payload @ [quote]
       @ '','' @ json_key ''iat'' @ bits iat
       @ '','' @ json_key ''exp'' @ bits exp @ ''}''"

text \<open>The part of a token that comes before the issue time.\<close>

definition claims_prefix :: "jwt_payload \<Rightarrow> string" where
  "claims_prefix payload =
     jwt_header @ ''.{'' @ json_key ''sub'' @ [quote] @ sub payload @ [quote]
       @ '','' @ json_key ''email'' @ [quote] @ email payload @ [quote]
       @ '','' @ json_key ''iat''"

definition demo_sign :: "jwt_payload \<Rightarrow> nat \<Rightarrow> string \<Rightarrow> nat \<Rightarrow> string" where
  "demo_sign payload expiresIn secret now =
     jwt_header @ ''.'' @ claims_text payload now (now + expiresIn) @ ''.'' @ secret"

fun strip_prefix :: "string \<Rightarrow> string \<Rightarrow> string option" where
  "strip_prefix [] s = Some s"
| "strip_prefix (c # cs) [] = None"
| "strip_prefix (c # cs) (d # ds) = (if c = d then strip_prefix cs ds else None)"

text \<open>
  Verification reads the token back field by field; it accepts a token signed with the given
  secret that has not reached its expiry.
\<close>

definition demo_verify :: "string \<Rightarrow> string option \<Rightarrow> nat \<Rightarrow> jwt_payload option" where
  "demo_verify token secret now =
     (case strip_prefix (jwt_header @ ''.{'' @ json_key ''sub'' @ [quote]) token of
        None \<Rightarrow> None
      | Some r1 \<Rightarrow>
     (case strip_prefix ([quote] @ '','' @ json_key ''email'' @ [quote])
             (dropWhile (\<lambda>c. c \<noteq> quote) r1) of
        None \<Rightarrow> None
      | Some r2 \<Rightarrow>
     (case strip_prefix ([quote] @ '','' @ json_key ''iat'') (dropWhile (\<lambda>c. c \<noteq> quote) r2) of
        None \<Rightarrow> None
      | Some r3 \<Rightarrow>
     (case strip_prefix ('','' @ json_key ''exp'') (dropWhile (\<lambda>c. c \<noteq> CHR '','') r3) of
        None \<Rightarrow> None
      | Some r4 \<Rightarrow>
     (case strip_prefix ''}.'' (dropWhile (\<lambda>c. c \<noteq> CHR ''}'') r4) of
        None \<Rightarrow> None
      | Some key \<Rightarrow>
          if secret = Some key \<and> now < unbits (takeWhile (\<lambda>c. c \<noteq> CHR ''}'') r4)
          then Some \<lparr>sub = takeWhile (\<lambda>c. c \<noteq> quote) r1,
                     email = takeWhile (\<lambda>c. c \<noteq> quote) r2\<rparr>
          else None)))))"

definition demo_hash :: "string \<Rightarrow> nat \<Rightarrow> nat \<Rightarrow> string" where
  "demo_hash data rounds salt = bits salt @ ''$'' @ take 72 data"

definition demo_compare :: "string \<Rightarrow> string \<Rightarrow> bool" where
  "demo_compare data hashed = (dropWhile (\<lambda>c. c \<noteq> CHR ''$'') hashed = ''$'' @ take 72 data)"

definition demo :: runtime where
  "demo = \<lparr>jwt_signAsync = demo_sign, jwt_verify = demo_verify,
           bcrypt_hash = demo_hash, bcrypt_compare = demo_compare,
           JWT_SECRET = Some ''k1'', JWT_REFRESH_SECRET = Some ''k2'',
           transporter = Some (\<lambda>m. Inr \<lparr>messageId = ''m1'', previewUrl = ''url''\<rparr>)\<rparr>"

section \<open>Sample data\<close>

definition alice_payload :: jwt_payload where
  "alice_payload = \<lparr>sub = ''u1'', email = ''a@x.com''\<rparr>"

text \<open>Tokens signed for Alice at second 100: an access and a refresh token.\<close>

definition alice_access :: string where
  "alice_access = demo_sign alice_payload (15 * 60) ''k1'' 100"

definition alice_refresh :: string where
  "alice_refresh = demo_sign alice_payload (7 * 24 * 60 * 60) ''k2'' 100"

definition alice :: user where
  "alice = \<lparr>user_id = ''u1'', user_email = ''a@x.com'',
            user_password = demo_hash ''pw123456'' 10 1, user_name = ''A'',
            user_refreshToken = Some (demo_hash alice_refresh 10 2)\<rparr>"

definition bob :: user where
  "bob = \<lparr>user_id = ''u2'', user_email = ''b@x.com'',
          user_password = demo_hash ''hunter22'' 10 3, user_name = ''B'',
          user_refreshToken = None\<rparr>"

definition post1 :: post where
  "post1 = \<lparr>post_id = ''p1'', post_title = ''T'', post_content = ''C'', post_published = True,
            post_fileUrl = None, post_authorId = ''u1'', post_createdAt = 10, post_updatedAt = 10\<rparr>"

definition post2 :: post where
  "post2 = \<lparr>post_id = ''p2'', post_title = ''U'', post_content = ''D'', post_published = False,
            post_fileUrl = None, post_authorId = ''u2'', post_createdAt = 20, post_updatedAt = 20\<rparr>"

text \<open>Bob's reply to Alice's post.\<close>

definition reply1 :: reply where
  "reply1 = \<lparr>reply_id = ''r1'', reply_content = ''hello'', reply_postId = ''p1'',
             reply_authorId = ''u2'', reply_createdAt = 30\<rparr>"

definition empty_db :: database where
  "empty_db = \<lparr>users = [], posts = [], replies = []\<rparr>"

definition sample_db :: database where
  "sample_db = \<lparr>users = [alice, bob], posts = [post1, post2], replies = [reply1]\<rparr>"


definition sample_schema :: schema where
  "sample_schema = \<lparr>cascadeReplies = True, publishedDefault = False,
                    negativePaging = (\<lambda>ps skip tk. Inl (OtherError ''PrismaClientValidationError''))\<rparr>"

section \<open>Auxiliary facts\<close>

subsection \<open>Lookups by key\<close>

lemma find_map_update:
  assumes "\<And>x. key (g x) = key x"
  shows "find (\<lambda>x. key x = i) (map (\<lambda>x. if key x = i then g x else x) xs)
       = map_option g (find (\<lambda>x. key x = i) xs)"
  using assms by (induction xs) auto

lemma find_filter_other:
  "find (\<lambda>x. key x = i) (filter (\<lambda>x. key x \<noteq> i) xs) = None"
  by (induction xs) auto

lemma find_key: "find (\<lambda>x. key x = i) xs = Some x \<Longrightarrow> key x = i"
  by (induction xs) (auto split: if_splits)

lemma find_map_same:
  assumes "\<And>x. P (g x) = P x"
  shows "find P (map g xs) = map_option g (find P xs)"
  using assms by (induction xs) auto

lemma find_append:
  "find P (xs @ ys) = (case find P xs of None \<Rightarrow> find P ys | Some x \<Rightarrow> Some x)"
  by (induction xs) auto

lemma post_id_apply_update: "post_id (apply_update now dto p) = post_id p"
  by (simp add: apply_update_def)

subsection \<open>The instance of the libraries\<close>

lemma strip_prefix_append [simp]: "strip_prefix p (p @ s) = Some s"
  by (induction p) auto

lemma bits_set: "set (bits n) \<subseteq> {CHR ''0'', CHR ''1''}"
proof (induction n rule: bits.induct)
  case (1 n)
  then show ?case
    by (subst bits.simps) auto
qed

lemma unbits_bits [simp]: "unbits (bits n) = n"
proof (induction n rule: bits.induct)
  case (1 n)
  show ?case
  proof (cases "n = 0")
    case True
    then show ?thesis by (simp add: bits.simps)
  next
    case False
    with 1 have "unbits (bits (n div 2)) = n div 2"
      by simp
    with False show ?thesis
      by (subst bits.simps) (auto simp: odd_iff_mod_2_eq_one elim: oddE)
  qed
qed

lemma until_stop:
  assumes "stop \<notin> set xs"
  shows "takeWhile (\<lambda>c. c \<noteq> stop) (xs @ stop # rest) = xs"
    and "dropWhile (\<lambda>c. c \<noteq> stop) (xs @ stop # rest) = stop # rest"
  using assms by (induction xs) auto

lemma strip_prefix_eq: "s = p @ r \<Longrightarrow> strip_prefix p s = Some r"
  by simp

lemma demo_verify_sign:
  assumes "quote \<notin> set (sub p)" and "quote \<notin> set (email p)"
  shows "demo_verify (demo_sign p expiresIn key iat) secret now =
           (if secret = Some key \<and> now < iat + expiresIn then Some p else None)"
proof -
  define r4 where "r4 = bits (iat + expiresIn) @ CHR ''}'' # ''.'' @ key"
  define r3 where "r3 = bits iat @ CHR '','' # json_key ''exp'' @ r4"
  define r2 where "r2 = email p @ quote # '','' @ json_key ''iat'' @ r3"
  define r1 where "r1 = sub p @ quote # '','' @ json_key ''email'' @ [quote] @ r2"
  have stops: "CHR '','' \<notin> set (bits iat)" "CHR ''}'' \<notin> set (bits (iat + expiresIn))"
    using bits_set [of iat] bits_set [of "iat + expiresIn"] by auto
  have s1: "strip_prefix (jwt_header @ ''.{'' @ json_key ''sub'' @ [quote])
              (demo_sign p expiresIn key iat) = Some r1"
    by (rule strip_prefix_eq) (simp add: demo_sign_def claims_text_def r1_def r2_def r3_def r4_def)
  have s2: "strip_prefix ([quote] @ '','' @ json_key ''email'' @ [quote])
              (dropWhile (\<lambda>c. c \<noteq> quote) r1) = Some r2"
    by (rule strip_prefix_eq) (simp add: r1_def until_stop [OF assms(1)])
  have s3: "strip_prefix ([quote] @ '','' @ json_key ''iat'')
              (dropWhile (\<lambda>c. c \<noteq> quote) r2) = Some r3"
    by (rule strip_prefix_eq) (simp add: r2_def until_stop [OF assms(2)])
  have s4: "strip_prefix ('','' @ json_key ''exp'') (dropWhile (\<lambda>c. c \<noteq> CHR '','') r3) = Some r4"
    by (rule strip_prefix_eq) (simp add: r3_def until_stop [OF stops(1)])
  have s5: "strip_prefix ''}.'' (dropWhile (\<lambda>c. c \<noteq> CHR ''}'') r4) = Some key"
    by (rule strip_prefix_eq) (simp add: r4_def until_stop [OF stops(2)])
  have t1: "takeWhile (\<lambda>c. c \<noteq> quote) r1 = sub p"
    by (simp add: r1_def until_stop [OF assms(1)])
  have t2: "takeWhile (\<lambda>c. c \<noteq> quote) r2 = email p"
    by (simp add: r2_def until_stop [OF assms(2)])
  have t4: "unbits (takeWhile (\<lambda>c. c \<noteq> CHR ''}'') r4) = iat + expiresIn"
    by (simp add: r4_def until_stop [OF stops(2)])
  have "demo_verify (demo_sign p expiresIn key iat) secret now =
          (if secret = Some key \<and> now < iat + expiresIn
           then Some \<lparr>sub = sub p, email = email p\<rparr> else None)"
    by (simp only: demo_verify_def s1 s2 s3 s4 s5 t1 t2 t4 option.case)
  then show ?thesis
    by simp
qed

lemma demo_compare_hash:
  "demo_compare y (demo_hash x rounds salt) = (take 72 y = take 72 x)"
proof -
  have "CHR ''$'' \<notin> set (bits salt)"
    using bits_set [of salt] by auto
  then have "dropWhile (\<lambda>c. c \<noteq> CHR ''$'') (bits salt @ CHR ''$'' # take 72 x) = CHR ''$'' # take 72 x"
    by (rule until_stop)
  then show ?thesis
    by (auto simp: demo_compare_def demo_hash_def)
qed

text \<open>The first 72 bytes of a token do not reach the issue time.\<close>

lemma demo_sign_prefix:
  assumes "8 \<le> length (sub p) + length (email p)"
  shows "take 72 (demo_sign p expiresIn key now) = take 72 (claims_prefix p)"
proof -
  have split: "demo_sign p expiresIn key now =
      claims_prefix p @ bits now @ '','' @ json_key ''exp'' @ bits (now + expiresIn) @ ''}.'' @ key"
    by (simp add: demo_sign_def claims_text_def claims_prefix_def)
  have "length (claims_prefix p) = 64 + length (sub p) + length (email p)"
    by (simp add: claims_prefix_def jwt_header_def json_key_def)
  with assms have "72 \<le> length (claims_prefix p)"
    by simp
  then show ?thesis
    unfolding split by simp
qed

subsection \<open>The sample data, evaluated\<close>

lemma alice_payload_plain:
  "quote \<notin> set (sub alice_payload)" "quote \<notin> set (email alice_payload)"
  "8 \<le> length (sub alice_payload) + length (email alice_payload)"
  by (simp_all add: alice_payload_def quote_def)

lemma verify_alice_access:
  "demo_verify alice_access (Some ''k1'') now = (if now < 1000 then Some alice_payload else None)"
  by (simp add: alice_access_def demo_verify_sign alice_payload_plain)

lemma verify_alice_refresh:
  "demo_verify alice_refresh (Some ''k2'') now = (if now < 604900 then Some alice_payload else None)"
  by (simp add: alice_refresh_def demo_verify_sign alice_payload_plain)

lemma sample_reply: "reply_findUnique sample_db ''r1'' = Some reply1"
  by (simp add: reply_findUnique_def sample_db_def reply1_def)

lemma sample_post: "post_findUnique sample_db ''p1'' = Some post1"
  by (simp add: post_findUnique_def sample_db_def post1_def)

lemma generateTokens_demo_alice:
  "generateTokens demo now ''u1'' ''a@x.com'' =
     \<lparr>accessToken = demo_sign alice_payload (15 * 60) ''k1'' now,
      refreshToken = demo_sign alice_payload (7 * 24 * 60 * 60) ''k2'' now\<rparr>"
  by (simp add: generateTokens_def demo_def or_default_def alice_payload_def Let_def)

lemma generateTokens_alice:
  "generateTokens demo 100 ''u1'' ''a@x.com'' = \<lparr>accessToken = alice_access, refreshToken = alice_refresh\<rparr>"
  by (simp add: generateTokens_def demo_def or_default_def alice_access_def alice_refresh_def
        alice_payload_def Let_def)

lemma demo_hash_nonempty: "demo_hash x rounds salt \<noteq> []"
  by (simp add: demo_hash_def)

lemma sample_alice: "user_findUnique_id sample_db ''u1'' = Some alice"
  by (simp add: user_findUnique_id_def sample_db_def alice_def)

lemma alice_fields:
  "user_id alice = ''u1''" "user_email alice = ''a@x.com''" "user_name alice = ''A''"
  "user_refreshToken alice = Some (demo_hash alice_refresh 10 2)"
  by (simp_all add: alice_def)

lemma demo_fields:
  "jwt_verify demo = demo_verify" "bcrypt_compare demo = demo_compare"
  "bcrypt_hash demo = demo_hash" "JWT_REFRESH_SECRET demo = Some ''k2''"
  "JWT_SECRET demo = Some ''k1''"
  by (simp_all add: demo_def)

subsection \<open>Registration\<close>

text \<open>The mail transport plays no part in issuing tokens or storing their hash.\<close>

lemma generateTokens_transporter [simp]:
  "generateTokens (R\<lparr>transporter := t\<rparr>) = generateTokens R"
  by (simp add: generateTokens_def fun_eq_iff)

lemma updateRefreshToken_transporter [simp]:
  "updateRefreshToken (R\<lparr>transporter := t\<rparr>) = updateRefreshToken R"
  by (simp add: updateRefreshToken_def fun_eq_iff)

text \<open>What register does when the email is new and the id is unused.\<close>

lemma register_success:
  assumes "user_findUnique_email d (register_email dto) = None"
      and "user_findUnique_id d newId = None"
  shows "AuthService_register R now s1 s2 newId d dto =
     (Inr \<lparr>accessToken = accessToken (generateTokens R now newId (register_email dto)),
           refreshToken = refreshToken (generateTokens R now newId (register_email dto)),
           user = \<lparr>summary_id = newId, summary_email = register_email dto,
                   summary_name = register_name dto\<rparr>\<rparr>,
      d\<lparr>users := users d @
          [\<lparr>user_id = newId, user_email = register_email dto,
            user_password = bcrypt_hash R (register_password dto) 10 s1,
            user_name = register_name dto,
            user_refreshToken =
              Some (bcrypt_hash R (refreshToken (generateTokens R now newId (register_email dto))) 10 s2)\<rparr>]\<rparr>,
      snd (MailService_sendWelcomeEmail R (register_email dto) (register_name dto)))"
proof -
  have other: "map (\<lambda>u. if user_id u = newId then u\<lparr>user_refreshToken := v\<rparr> else u) (users d) = users d" for v
  proof -
    have "\<forall>u \<in> set (users d). user_id u \<noteq> newId"
      using assms(2) by (simp add: user_findUnique_id_def find_None_iff)
    then show ?thesis
      by (intro map_idI) simp
  qed
  show ?thesis
    using assms
    by (simp add: AuthService_register_def user_create_def updateRefreshToken_def
          user_update_refreshToken_def user_findUnique_id_def find_append Let_def summary_def other)
qed

lemma register_shape:
  assumes "fst (AuthService_register R now s1 s2 newId d dto) = Inr res"
  shows "user res = \<lparr>summary_id = newId, summary_email = register_email dto,
                     summary_name = register_name dto\<rparr>
       \<and> accessToken res = accessToken (generateTokens R now newId (register_email dto))
       \<and> refreshToken res = refreshToken (generateTokens R now newId (register_email dto))"
  using assms
  by (auto simp: AuthService_register_def user_create_def Let_def summary_def
        split: option.splits sum.splits if_splits)

subsection \<open>Refreshing\<close>

lemma stored_after_update:
  "user_findUnique_id
     (d\<lparr>users := map (\<lambda>x. if user_id x = i then x\<lparr>user_refreshToken := v\<rparr> else x) (users d)\<rparr>) j
   = map_option (\<lambda>x. if user_id x = i then x\<lparr>user_refreshToken := v\<rparr> else x)
       (user_findUnique_id d j)"
  by (simp add: user_findUnique_id_def find_map_same)

lemma user_id_found: "user_findUnique_id d i = Some u \<Longrightarrow> user_id u = i"
  unfolding user_findUnique_id_def by (rule find_key)

lemma refresh_accepts:
  assumes "jwt_verify R t (JWT_REFRESH_SECRET R) now = Some p"
      and "user_findUnique_id d (sub p) = Some u"
      and "user_refreshToken u = Some h" and "h \<noteq> []" and "bcrypt_compare R t h"
  shows "AuthService_refreshToken R now salt d t =
     (Inr (generateTokens R now (sub p) (user_email u)),
      d\<lparr>users := map (\<lambda>x. if user_id x = sub p
                            then x\<lparr>user_refreshToken :=
                                     Some (bcrypt_hash R
                                       (refreshToken (generateTokens R now (sub p) (user_email u)))
                                       10 salt)\<rparr>
                            else x) (users d)\<rparr>)"
  using assms user_id_found [OF assms(2)]
  by (simp add: AuthService_refreshToken_def refreshToken_body_def updateRefreshToken_def
        user_update_refreshToken_def Let_def)

lemma refresh_rejects_unmatched:
  assumes "\<forall>p. jwt_verify R t (JWT_REFRESH_SECRET R) now = Some p \<longrightarrow>
             (\<exists>u. user_findUnique_id d (sub p) = Some u \<and>
                  (case user_refreshToken u of None \<Rightarrow> True | Some h \<Rightarrow> \<not> bcrypt_compare R t h))"
  shows "AuthService_refreshToken R now salt d t
       = (Inl (HttpException ''Invalid or expired refresh token'' UNAUTHORIZED), d)"
proof (cases "jwt_verify R t (JWT_REFRESH_SECRET R) now")
  case None
  then show ?thesis
    by (simp add: AuthService_refreshToken_def refreshToken_body_def UnauthorizedException_def)
next
  case (Some p)
  with assms obtain u where "user_findUnique_id d (sub p) = Some u"
    and "case user_refreshToken u of None \<Rightarrow> True | Some h \<Rightarrow> \<not> bcrypt_compare R t h"
    by blast
  with Some show ?thesis
    by (simp add: AuthService_refreshToken_def refreshToken_body_def UnauthorizedException_def
          split: option.splits)
qed

section \<open>Refresh rotation\<close>

text \<open>
  For any libraries: a refresh with a token that verifies and matches the stored, non-empty
  hash of its subject succeeds, returns the token pair generated for that user at the time
  of the call, and overwrites the stored hash with the hash of the returned refresh token.
\<close>

lemma refresh_overwrites_hash:
  assumes "jwt_verify R t (JWT_REFRESH_SECRET R) now = Some p"
      and "user_findUnique_id d (sub p) = Some u"
      and "user_refreshToken u = Some h" and "h \<noteq> []" and "bcrypt_compare R t h"
  shows "fst (AuthService_refreshToken R now salt d t)
           = Inr (generateTokens R now (sub p) (user_email u))"
    and "user_findUnique_id (snd (AuthService_refreshToken R now salt d t)) (sub p)
           = Some (u\<lparr>user_refreshToken :=
                      Some (bcrypt_hash R (refreshToken (generateTokens R now (sub p) (user_email u)))
                              10 salt)\<rparr>)"
proof -
  note first = refresh_accepts [OF assms, of salt]
  have uid: "user_id u = sub p"
    using assms(2) by (rule user_id_found)
  show "fst (AuthService_refreshToken R now salt d t)
           = Inr (generateTokens R now (sub p) (user_email u))"
    by (simp add: first)
  show "user_findUnique_id (snd (AuthService_refreshToken R now salt d t)) (sub p)
           = Some (u\<lparr>user_refreshToken :=
                      Some (bcrypt_hash R (refreshToken (generateTokens R now (sub p) (user_email u)))
                              10 salt)\<rparr>)"
    using assms(2) uid by (simp add: first stored_after_update)
qed

text \<open>
  For any libraries: when the refresh token that a successful refresh returns is the presented
  one again, and the comparison accepts a hash of the string it was made from, the presented
  token is accepted a second time.
\<close>

lemma refresh_reissues_same_token:
  assumes "jwt_verify R t (JWT_REFRESH_SECRET R) now = Some p"
      and "jwt_verify R t (JWT_REFRESH_SECRET R) now' = Some p"
      and "user_findUnique_id d (sub p) = Some u"
      and "user_refreshToken u = Some h" and "h \<noteq> []" and "bcrypt_compare R t h"
      and issued: "refreshToken (generateTokens R now (sub p) (user_email u)) = t"
      and "bcrypt_hash R t 10 salt \<noteq> []"
      and "bcrypt_compare R t (bcrypt_hash R t 10 salt)"
  shows "fst (AuthService_refreshToken R now' salt'
                (snd (AuthService_refreshToken R now salt d t)) t)
           = Inr (generateTokens R now' (sub p) (user_email u))"
proof -
  let ?d' = "snd (AuthService_refreshToken R now salt d t)"
  have uid: "user_id u = sub p"
    using assms(3) by (rule user_id_found)
  have first: "AuthService_refreshToken R now salt d t =
     (Inr (generateTokens R now (sub p) (user_email u)),
      d\<lparr>users := map (\<lambda>x. if user_id x = sub p
                            then x\<lparr>user_refreshToken := Some (bcrypt_hash R t 10 salt)\<rparr>
                            else x) (users d)\<rparr>)"
    using refresh_accepts [OF assms(1) assms(3-6), of salt] by (simp add: issued)
  have stored: "user_findUnique_id ?d' (sub p) = Some (u\<lparr>user_refreshToken := Some (bcrypt_hash R t 10 salt)\<rparr>)"
    using assms(3) uid by (simp add: first stored_after_update)
  show ?thesis
    using refresh_accepts [OF assms(2) stored _ assms(8) assms(9), of salt'] by simp
qed

text \<open>
  Every refresh token of Alice matches the hash of every other: their first 72 bytes are the
  header and the claims up to the issue time, and the hash is made from those bytes alone.
\<close>

lemma alice_tokens_match:
  "bcrypt_compare demo alice_refresh
     (demo_hash (demo_sign alice_payload (7 * 24 * 60 * 60) ''k2'' now) 10 salt)"
  by (simp add: demo_fields demo_compare_hash alice_refresh_def
        demo_sign_prefix [OF alice_payload_plain(3)])

lemma alice_later_token_differs:
  "demo_sign alice_payload (7 * 24 * 60 * 60) ''k2'' 200 \<noteq> alice_refresh"
proof
  assume "demo_sign alice_payload (7 * 24 * 60 * 60) ''k2'' 200 = alice_refresh"
  then have "demo_verify (demo_sign alice_payload (7 * 24 * 60 * 60) ''k2'' 200) (Some ''k2'') 604950
           = demo_verify alice_refresh (Some ''k2'') 604950"
    by simp
  then show False
    by (simp add: verify_alice_refresh demo_verify_sign alice_payload_plain)
qed

text \<open>
  Claim C1: a refresh with the matching current refresh token \<open>t\<close> succeeds, returns a new
  token pair and overwrites the stored hash with a hash of the new refresh token, so that a
  second refresh presenting \<open>t\<close> fails Unauthorized. The code overwrites the hash, and yet
  the second refresh is accepted, in two ways. The payload that \<open>generateTokens\<close> signs
  is the user's id and email and nothing else, so the refresh token issued for a user is
  determined by the secret and the clock second: a refresh at second 100 with Alice's token
  of second 100 returns that token again, and it is accepted again at second 101. And the
  stored hash covers only the first 72 bytes of a token, which do not reach the issue time:
  a refresh at second 200 returns a different token and stores its hash, and the token of
  second 100 is still accepted at second 300.
\<close>

theorem refresh_accepts_stale_token:
  "user_findUnique_id sample_db ''u1'' = Some alice
   \<and> user_refreshToken alice = Some (demo_hash alice_refresh 10 2)
   \<and> fst (AuthService_refreshToken demo 100 5 sample_db alice_refresh)
       = Inr \<lparr>accessToken = alice_access, refreshToken = alice_refresh\<rparr>
   \<and> user_findUnique_id (snd (AuthService_refreshToken demo 100 5 sample_db alice_refresh)) ''u1''
       = Some (alice\<lparr>user_refreshToken := Some (demo_hash alice_refresh 10 5)\<rparr>)
   \<and> fst (AuthService_refreshToken demo 101 6
            (snd (AuthService_refreshToken demo 100 5 sample_db alice_refresh)) alice_refresh)
       = Inr (generateTokens demo 101 ''u1'' ''a@x.com'')
   \<and> fst (AuthService_refreshToken demo 200 5 sample_db alice_refresh)
       = Inr (generateTokens demo 200 ''u1'' ''a@x.com'')
   \<and> refreshToken (generateTokens demo 200 ''u1'' ''a@x.com'') \<noteq> alice_refresh
   \<and> user_findUnique_id (snd (AuthService_refreshToken demo 200 5 sample_db alice_refresh)) ''u1''
       = Some (alice\<lparr>user_refreshToken :=
                  Some (demo_hash (refreshToken (generateTokens demo 200 ''u1'' ''a@x.com'')) 10 5)\<rparr>)
   \<and> fst (AuthService_refreshToken demo 300 6
            (snd (AuthService_refreshToken demo 200 5 sample_db alice_refresh)) alice_refresh)
       = Inr (generateTokens demo 300 ''u1'' ''a@x.com'')"
proof -
  have verified: "jwt_verify demo alice_refresh (JWT_REFRESH_SECRET demo) 100 = Some alice_payload"
                 "jwt_verify demo alice_refresh (JWT_REFRESH_SECRET demo) 101 = Some alice_payload"
                 "jwt_verify demo alice_refresh (JWT_REFRESH_SECRET demo) 200 = Some alice_payload"
                 "jwt_verify demo alice_refresh (JWT_REFRESH_SECRET demo) 300 = Some alice_payload"
    by (simp_all add: demo_fields verify_alice_refresh)
  have found: "user_findUnique_id sample_db (sub alice_payload) = Some alice"
    by (simp add: sample_alice alice_payload_def)
  have whose: "sub alice_payload = ''u1''" "user_email alice = ''a@x.com''"
    by (simp_all add: alice_payload_def alice_def)
  have matches: "bcrypt_compare demo alice_refresh (demo_hash alice_refresh 10 salt)" for salt
    using alice_tokens_match [of 100 salt] by (simp add: alice_refresh_def)
  have issued: "refreshToken (generateTokens demo 100 (sub alice_payload) (user_email alice))
                  = alice_refresh"
    by (simp add: whose generateTokens_alice)
  have rehashed: "bcrypt_hash demo alice_refresh 10 5 \<noteq> []"
                 "bcrypt_compare demo alice_refresh (bcrypt_hash demo alice_refresh 10 5)"
    using matches [of 5] by (simp_all add: demo_fields demo_hash_nonempty)
  note same_second = refresh_overwrites_hash
      [OF verified(1) found alice_fields(4) demo_hash_nonempty matches, of 5]
  have first100: "fst (AuthService_refreshToken demo 100 5 sample_db alice_refresh)
       = Inr \<lparr>accessToken = alice_access, refreshToken = alice_refresh\<rparr>"
    using same_second(1) by (simp add: whose generateTokens_alice)
  have stored100: "user_findUnique_id (snd (AuthService_refreshToken demo 100 5 sample_db alice_refresh)) ''u1''
       = Some (alice\<lparr>user_refreshToken := Some (demo_hash alice_refresh 10 5)\<rparr>)"
    using same_second(2) by (simp add: whose generateTokens_alice demo_fields)
  have second101: "fst (AuthService_refreshToken demo 101 6
            (snd (AuthService_refreshToken demo 100 5 sample_db alice_refresh)) alice_refresh)
       = Inr (generateTokens demo 101 ''u1'' ''a@x.com'')"
    using refresh_reissues_same_token
      [OF verified(1) verified(2) found alice_fields(4) demo_hash_nonempty matches issued
          rehashed, of 6]
    by (simp add: whose)
  note later = refresh_overwrites_hash
      [OF verified(3) found alice_fields(4) demo_hash_nonempty matches, of 5]
  have first200: "fst (AuthService_refreshToken demo 200 5 sample_db alice_refresh)
       = Inr (generateTokens demo 200 ''u1'' ''a@x.com'')"
    using later(1) by (simp add: whose)
  have differs: "refreshToken (generateTokens demo 200 ''u1'' ''a@x.com'') \<noteq> alice_refresh"
    using alice_later_token_differs by (simp add: generateTokens_demo_alice)
  have stored200: "user_findUnique_id (snd (AuthService_refreshToken demo 200 5 sample_db alice_refresh))
        (sub alice_payload)
       = Some (alice\<lparr>user_refreshToken :=
                  Some (demo_hash (refreshToken (generateTokens demo 200 ''u1'' ''a@x.com'')) 10 5)\<rparr>)"
    using later(2) by (simp add: whose demo_fields)
  have still: "bcrypt_compare demo alice_refresh
                 (demo_hash (refreshToken (generateTokens demo 200 ''u1'' ''a@x.com'')) 10 5)"
    using alice_tokens_match [of 200 5] by (simp add: generateTokens_demo_alice)
  have second300: "fst (AuthService_refreshToken demo 300 6
            (snd (AuthService_refreshToken demo 200 5 sample_db alice_refresh)) alice_refresh)
       = Inr (generateTokens demo 300 ''u1'' ''a@x.com'')"
    using refresh_overwrites_hash(1) [OF verified(4) stored200 _ demo_hash_nonempty still, of 6]
    by (simp add: whose)
  show ?thesis
    using sample_alice alice_fields(4) first100 stored100 second101 first200 differs stored200
      second300
    by (simp add: whose)
qed

section \<open>Logout\<close>

lemma logout_stored:
  assumes "user_findUnique_id d uid = Some u"
  shows "AuthService_logout d uid =
     (Inr ''Logged out successfully'',
      d\<lparr>users := map (\<lambda>x. if user_id x = uid then x\<lparr>user_refreshToken := None\<rparr> else x) (users d)\<rparr>)"
  using assms by (simp add: AuthService_logout_def user_update_refreshToken_def)

lemma validate_ignores_hash:
  "JwtStrategy_validate
     (d\<lparr>users := map (\<lambda>x. if user_id x = i then x\<lparr>user_refreshToken := v\<rparr> else x) (users d)\<rparr>) p
   = JwtStrategy_validate d p"
  by (simp add: JwtStrategy_validate_def stored_after_update split: option.splits)

text \<open>
  Claim C2: for the id of a stored user, \<open>logout\<close> returns its confirmation message and
  sets that user's stored refresh-token hash to null. Afterwards a refresh with a token of
  that user fails Unauthorized, for want of a stored hash, whether or not the token still
  verifies. Access-token validation is untouched by the logout: every bearer token has the
  same outcome as before, so an access token of that user that still verifies keeps
  authorizing requests as that user.
\<close>

theorem logout_contract:
  assumes "user_findUnique_id d uid = Some u"
  shows "fst (AuthService_logout d uid) = Inr ''Logged out successfully''
     \<and> user_findUnique_id (snd (AuthService_logout d uid)) uid = Some (u\<lparr>user_refreshToken := None\<rparr>)
     \<and> ((\<forall>p. jwt_verify R t (JWT_REFRESH_SECRET R) now = Some p \<longrightarrow> sub p = uid) \<longrightarrow>
          AuthService_refreshToken R now salt (snd (AuthService_logout d uid)) t
            = (Inl (HttpException ''Invalid or expired refresh token'' UNAUTHORIZED),
               snd (AuthService_logout d uid)))
     \<and> JwtAuthGuard R now' (snd (AuthService_logout d uid)) bearer = JwtAuthGuard R now' d bearer
     \<and> (\<forall>p. jwt_verify R bearer
                (Some (or_default (JWT_SECRET R) ''your-secret-key-change-in-production'')) now'
              = Some p \<and> sub p = uid \<longrightarrow>
          JwtAuthGuard R now' (snd (AuthService_logout d uid)) bearer
            = Inr \<lparr>userId = uid, req_email = user_email u, req_name = user_name u\<rparr>)"
proof -
  let ?d' = "snd (AuthService_logout d uid)"
  note out = logout_stored [OF assms]
  have uid: "user_id u = uid"
    using assms by (rule user_id_found)
  have cleared: "user_findUnique_id ?d' uid = Some (u\<lparr>user_refreshToken := None\<rparr>)"
    using assms uid by (simp add: out stored_after_update)
  have refused: "AuthService_refreshToken R now salt ?d' t
            = (Inl (HttpException ''Invalid or expired refresh token'' UNAUTHORIZED), ?d')"
    if subject: "\<forall>p. jwt_verify R t (JWT_REFRESH_SECRET R) now = Some p \<longrightarrow> sub p = uid"
  proof (rule refresh_rejects_unmatched, intro allI impI)
    fix p
    assume "jwt_verify R t (JWT_REFRESH_SECRET R) now = Some p"
    with subject have "sub p = uid"
      by blast
    with cleared
    show "\<exists>u. user_findUnique_id ?d' (sub p) = Some u \<and>
              (case user_refreshToken u of None \<Rightarrow> True | Some h \<Rightarrow> \<not> bcrypt_compare R t h)"
      by simp
  qed
  have guard: "JwtAuthGuard R now' ?d' bearer = JwtAuthGuard R now' d bearer"
    by (simp add: out JwtAuthGuard_def validate_ignores_hash split: option.splits)
  have authorized: "JwtAuthGuard R now' ?d' bearer
            = Inr \<lparr>userId = uid, req_email = user_email u, req_name = user_name u\<rparr>"
    if "jwt_verify R bearer
                (Some (or_default (JWT_SECRET R) ''your-secret-key-change-in-production'')) now'
              = Some p \<and> sub p = uid" for p
    using that uid by (simp add: JwtAuthGuard_def JwtStrategy_validate_def cleared)
  show ?thesis
  proof (intro conjI impI allI)
    show "fst (AuthService_logout d uid) = Inr ''Logged out successfully''"
      by (simp add: out)
    show "user_findUnique_id ?d' uid = Some (u\<lparr>user_refreshToken := None\<rparr>)"
      by (rule cleared)
    show "JwtAuthGuard R now' ?d' bearer = JwtAuthGuard R now' d bearer"
      by (rule guard)
  next
    assume "\<forall>p. jwt_verify R t (JWT_REFRESH_SECRET R) now = Some p \<longrightarrow> sub p = uid"
    then show "AuthService_refreshToken R now salt ?d' t
            = (Inl (HttpException ''Invalid or expired refresh token'' UNAUTHORIZED), ?d')"
      by (rule refused)
  next
    fix p
    assume "jwt_verify R bearer
                (Some (or_default (JWT_SECRET R) ''your-secret-key-change-in-production'')) now'
              = Some p \<and> sub p = uid"
    then show "JwtAuthGuard R now' ?d' bearer
            = Inr \<lparr>userId = uid, req_email = user_email u, req_name = user_name u\<rparr>"
      by (rule authorized)
  qed
qed

theorem logout_contract_witness:
  "user_findUnique_id sample_db ''u1'' = Some alice
   \<and> (\<exists>toks. fst (AuthService_refreshToken demo 200 5 sample_db alice_refresh) = Inr toks)
   \<and> fst (AuthService_logout sample_db ''u1'') = Inr ''Logged out successfully''
   \<and> user_findUnique_id (snd (AuthService_logout sample_db ''u1'')) ''u1''
       = Some (alice\<lparr>user_refreshToken := None\<rparr>)
   \<and> jwt_verify demo alice_refresh (JWT_REFRESH_SECRET demo) 200 = Some alice_payload
   \<and> sub alice_payload = ''u1''
   \<and> fst (AuthService_refreshToken demo 200 5 (snd (AuthService_logout sample_db ''u1'')) alice_refresh)
       = Inl (HttpException ''Invalid or expired refresh token'' UNAUTHORIZED)
   \<and> jwt_verify demo alice_access
        (Some (or_default (JWT_SECRET demo) ''your-secret-key-change-in-production'')) 200
       = Some alice_payload
   \<and> JwtAuthGuard demo 200 (snd (AuthService_logout sample_db ''u1'')) alice_access
       = Inr \<lparr>userId = ''u1'', req_email = ''a@x.com'', req_name = ''A''\<rparr>"
proof -
  have before: "\<exists>toks. fst (AuthService_refreshToken demo 200 5 sample_db alice_refresh) = Inr toks"
  proof -
    have "jwt_verify demo alice_refresh (JWT_REFRESH_SECRET demo) 200 = Some alice_payload"
      by (simp add: demo_fields verify_alice_refresh)
    moreover have "user_findUnique_id sample_db (sub alice_payload) = Some alice"
      by (simp add: sample_alice alice_payload_def)
    moreover have "bcrypt_compare demo alice_refresh (demo_hash alice_refresh 10 2)"
      by (simp add: demo_fields demo_compare_hash)
    ultimately show ?thesis
      using refresh_accepts [of demo alice_refresh 200 alice_payload sample_db alice
              "demo_hash alice_refresh 10 2" 5]
      by (simp add: alice_fields demo_hash_nonempty)
  qed
  have subject: "\<forall>p. jwt_verify demo alice_refresh (JWT_REFRESH_SECRET demo) 200 = Some p
                   \<longrightarrow> sub p = ''u1''"
    by (simp add: demo_fields verify_alice_refresh alice_payload_def)
  have bearer: "jwt_verify demo alice_access
        (Some (or_default (JWT_SECRET demo) ''your-secret-key-change-in-production'')) 200
       = Some alice_payload"
    by (simp add: demo_fields or_default_def verify_alice_access)
  have refresh: "jwt_verify demo alice_refresh (JWT_REFRESH_SECRET demo) 200 = Some alice_payload"
    by (simp add: demo_fields verify_alice_refresh)
  have whose: "sub alice_payload = ''u1''"
    by (simp add: alice_payload_def)
  with bearer subject
    logout_contract [OF sample_alice, of demo alice_refresh 200 5 200 alice_access]
  have "fst (AuthService_logout sample_db ''u1'') = Inr ''Logged out successfully''
     \<and> user_findUnique_id (snd (AuthService_logout sample_db ''u1'')) ''u1''
         = Some (alice\<lparr>user_refreshToken := None\<rparr>)
     \<and> fst (AuthService_refreshToken demo 200 5 (snd (AuthService_logout sample_db ''u1'')) alice_refresh)
         = Inl (HttpException ''Invalid or expired refresh token'' UNAUTHORIZED)
     \<and> JwtAuthGuard demo 200 (snd (AuthService_logout sample_db ''u1'')) alice_access
         = Inr \<lparr>userId = ''u1'', req_email = ''a@x.com'', req_name = ''A''\<rparr>"
    by (auto simp: alice_fields)
  then show ?thesis
    using sample_alice before refresh whose bearer by blast
qed

section \<open>Access-token validation\<close>

text \<open>
  Claim C3 says that whether a request bearing an access token is authorized depends on the
  token's signature and expiry only, with no store lookup during validation. It does not
  hold: \<open>validate\<close> looks the token's subject up among the stored users. Alice's access
  token, at the same second and so with the same signature and expiry verdict, is accepted
  over a store that has Alice and answered Unauthorized over a store that does not.
\<close>

theorem access_token_lookup_counterexample:
  "jwt_verify demo alice_access (Some ''k1'') 200 = Some alice_payload
   \<and> JwtAuthGuard demo 200 sample_db alice_access
       = Inr \<lparr>userId = ''u1'', req_email = ''a@x.com'', req_name = ''A''\<rparr>
   \<and> JwtAuthGuard demo 200 empty_db alice_access
       = Inl (HttpException ''User not found'' UNAUTHORIZED)"
  by (simp add: JwtAuthGuard_def JwtStrategy_validate_def demo_def or_default_def
        verify_alice_access user_findUnique_id_def sample_db_def empty_db_def alice_def
        alice_payload_def UnauthorizedException_def)

text \<open>
  Claim C3, amended: a request bearing an access token is authorized exactly when the token's
  signature and expiry verify against the access secret and a user with the token's subject
  id is stored; validation looks that user up by id, and a verified token whose subject is
  not stored is answered Unauthorized. Nothing else in the store matters: whatever the stored
  refresh-token hashes are changed to, the outcome is the same.
\<close>

theorem access_token_validity:
  "((\<exists>v. JwtAuthGuard R now d bearer = Inr v) \<longleftrightarrow>
      (\<exists>p. jwt_verify R bearer
              (Some (or_default (JWT_SECRET R) ''your-secret-key-change-in-production'')) now = Some p
           \<and> user_findUnique_id d (sub p) \<noteq> None))
   \<and> (\<forall>p. jwt_verify R bearer
              (Some (or_default (JWT_SECRET R) ''your-secret-key-change-in-production'')) now = Some p
           \<and> user_findUnique_id d (sub p) = None
         \<longrightarrow> JwtAuthGuard R now d bearer = Inl (HttpException ''User not found'' UNAUTHORIZED))
   \<and> JwtAuthGuard R now (d\<lparr>users := map (\<lambda>u. u\<lparr>user_refreshToken := h u\<rparr>) (users d)\<rparr>) bearer
       = JwtAuthGuard R now d bearer"
proof -
  have find_same: "find (\<lambda>u. user_id u = i) (map (\<lambda>u. u\<lparr>user_refreshToken := h u\<rparr>) us)
        = map_option (\<lambda>u. u\<lparr>user_refreshToken := h u\<rparr>) (find (\<lambda>u. user_id u = i) us)" for i us
    by (induction us) auto
  show ?thesis
    by (auto simp: JwtAuthGuard_def JwtStrategy_validate_def user_findUnique_id_def find_same
          UnauthorizedException_def split: option.splits)
qed

theorem access_token_validity_witness:
  "jwt_verify demo alice_access
      (Some (or_default (JWT_SECRET demo) ''your-secret-key-change-in-production'')) 200
     = Some alice_payload
   \<and> user_findUnique_id empty_db (sub alice_payload) = None
   \<and> JwtAuthGuard demo 200 empty_db alice_access = Inl (HttpException ''User not found'' UNAUTHORIZED)
   \<and> user_findUnique_id sample_db (sub alice_payload) \<noteq> None
   \<and> (\<exists>v. JwtAuthGuard demo 200 sample_db alice_access = Inr v)
   \<and> JwtAuthGuard demo 200
        (sample_db\<lparr>users := map (\<lambda>u. u\<lparr>user_refreshToken := None\<rparr>) (users sample_db)\<rparr>)
        alice_access
       = JwtAuthGuard demo 200 sample_db alice_access"
proof -
  have verified: "jwt_verify demo alice_access
      (Some (or_default (JWT_SECRET demo) ''your-secret-key-change-in-production'')) 200
     = Some alice_payload"
    by (simp add: demo_def or_default_def verify_alice_access)
  have missing: "user_findUnique_id empty_db (sub alice_payload) = None"
    by (simp add: user_findUnique_id_def empty_db_def)
  have stored: "user_findUnique_id sample_db (sub alice_payload) \<noteq> None"
    by (simp add: user_findUnique_id_def sample_db_def alice_def alice_payload_def)
  show ?thesis
    using verified missing stored
      access_token_validity [of demo 200 empty_db alice_access]
      access_token_validity [of demo 200 sample_db alice_access "\<lambda>u. None"]
    by blast
qed

section \<open>Login\<close>

text \<open>
  Claim C4: a login attempt for which no user matches the email, or for which a user matches
  and the password comparison fails, fails Unauthorized, and nothing is written. The
  exception is the same value in both cases, so two failing attempts, whatever their causes,
  return the same error to the caller.
\<close>

theorem login_failures_indistinguishable:
  assumes "user_findUnique_email d1 (login_email dto1) = None \<or>
           (\<exists>u. user_findUnique_email d1 (login_email dto1) = Some u \<and>
                \<not> bcrypt_compare R (login_password dto1) (user_password u))"
      and "user_findUnique_email d2 (login_email dto2) = None \<or>
           (\<exists>u. user_findUnique_email d2 (login_email dto2) = Some u \<and>
                \<not> bcrypt_compare R (login_password dto2) (user_password u))"
  shows "AuthService_login R now1 salt1 d1 dto1 = (Inl (HttpException ''Invalid credentials'' UNAUTHORIZED), d1)
       \<and> AuthService_login R now2 salt2 d2 dto2 = (Inl (HttpException ''Invalid credentials'' UNAUTHORIZED), d2)
       \<and> fst (AuthService_login R now1 salt1 d1 dto1) = fst (AuthService_login R now2 salt2 d2 dto2)"
  using assms by (auto simp: AuthService_login_def UnauthorizedException_def)

theorem login_failures_indistinguishable_witness:
  "user_findUnique_email empty_db ''a@x.com'' = None
   \<and> user_findUnique_email sample_db ''a@x.com'' = Some alice
   \<and> \<not> bcrypt_compare demo ''wrong'' (user_password alice)
   \<and> fst (AuthService_login demo 100 1 empty_db \<lparr>login_email = ''a@x.com'', login_password = ''pw123456''\<rparr>)
       = Inl (HttpException ''Invalid credentials'' UNAUTHORIZED)
   \<and> fst (AuthService_login demo 100 1 sample_db \<lparr>login_email = ''a@x.com'', login_password = ''wrong''\<rparr>)
       = Inl (HttpException ''Invalid credentials'' UNAUTHORIZED)"
proof -
  have h1: "user_findUnique_email empty_db ''a@x.com'' = None"
    by (simp add: user_findUnique_email_def empty_db_def)
  have h2: "user_findUnique_email sample_db ''a@x.com'' = Some alice"
    by (simp add: user_findUnique_email_def sample_db_def alice_def)
  have h3: "\<not> bcrypt_compare demo ''wrong'' (user_password alice)"
    by (simp add: demo_fields alice_def demo_compare_hash)
  show ?thesis
    using h1 h2 h3
      login_failures_indistinguishable
        [of empty_db "\<lparr>login_email = ''a@x.com'', login_password = ''pw123456''\<rparr>" demo
            sample_db "\<lparr>login_email = ''a@x.com'', login_password = ''wrong''\<rparr>" 100 1 100 1]
    by simp
qed

section \<open>Registration\<close>

text \<open>
  Claim C5: \<open>register\<close> fails with Conflict when a user with the email is already stored,
  and writes nothing. When it succeeds it returns the access and refresh token together with
  a user object that consists of the id, the email and the name (the type has no password
  field). When the email is not stored and the store's new id is unused, the registration
  succeeds, and any later registration with the same email, over the resulting store, fails
  with Conflict.
\<close>

theorem register_contract:
  "(\<forall>x. user_findUnique_email d (register_email dto) = Some x \<longrightarrow>
       AuthService_register R now s1 s2 newId d dto =
         (Inl (HttpException ''Email already exists'' CONFLICT), d, []))
 \<and> (\<forall>res. fst (AuthService_register R now s1 s2 newId d dto) = Inr res \<longrightarrow>
       user res = \<lparr>summary_id = newId, summary_email = register_email dto,
                   summary_name = register_name dto\<rparr>
     \<and> accessToken res = accessToken (generateTokens R now newId (register_email dto))
     \<and> refreshToken res = refreshToken (generateTokens R now newId (register_email dto)))
 \<and> (user_findUnique_email d (register_email dto) = None \<and> user_findUnique_id d newId = None \<longrightarrow>
       (\<exists>res. fst (AuthService_register R now s1 s2 newId d dto) = Inr res)
     \<and> (\<forall>dto'. register_email dto' = register_email dto \<longrightarrow>
           fst (AuthService_register R now' s1' s2' newId'
                  (fst (snd (AuthService_register R now s1 s2 newId d dto))) dto')
             = Inl (HttpException ''Email already exists'' CONFLICT)))"
proof -
  let "?A \<and> ?B \<and> ?C" = ?thesis
  have A: ?A
    by (simp add: AuthService_register_def ConflictException_def)
  have B: ?B
    using register_shape by blast
  have C: ?C
  proof (rule impI)
    assume fresh: "user_findUnique_email d (register_email dto) = None \<and> user_findUnique_id d newId = None"
    note first = register_success [OF conjunct1 [OF fresh] conjunct2 [OF fresh], of R now s1 s2]
    have again: "fst (AuthService_register R now' s1' s2' newId'
                  (fst (snd (AuthService_register R now s1 s2 newId d dto))) dto')
             = Inl (HttpException ''Email already exists'' CONFLICT)"
      if "register_email dto' = register_email dto" for dto'
      using that fresh unfolding first
      by (simp add: AuthService_register_def user_findUnique_email_def find_append
            ConflictException_def)
    show "(\<exists>res. fst (AuthService_register R now s1 s2 newId d dto) = Inr res)
     \<and> (\<forall>dto'. register_email dto' = register_email dto \<longrightarrow>
           fst (AuthService_register R now' s1' s2' newId'
                  (fst (snd (AuthService_register R now s1 s2 newId d dto))) dto')
             = Inl (HttpException ''Email already exists'' CONFLICT))"
      using again by (simp add: first)
  qed
  show ?thesis
    by (rule conjI [OF A conjI [OF B C]])
qed

theorem register_contract_witness:
  "user_findUnique_email empty_db ''a@x.com'' = None \<and> user_findUnique_id empty_db ''u1'' = None
   \<and> fst (AuthService_register demo 100 1 2 ''u1'' empty_db
            \<lparr>register_email = ''a@x.com'', register_password = ''pw123456'', register_name = ''A''\<rparr>)
       = Inr \<lparr>accessToken = alice_access, refreshToken = alice_refresh,
              user = \<lparr>summary_id = ''u1'', summary_email = ''a@x.com'', summary_name = ''A''\<rparr>\<rparr>
   \<and> fst (AuthService_register demo 101 3 4 ''u2''
            (fst (snd (AuthService_register demo 100 1 2 ''u1'' empty_db
               \<lparr>register_email = ''a@x.com'', register_password = ''pw123456'', register_name = ''A''\<rparr>)))
            \<lparr>register_email = ''a@x.com'', register_password = ''other'', register_name = ''Z''\<rparr>)
       = Inl (HttpException ''Email already exists'' CONFLICT)"
proof -
  let ?dto = "\<lparr>register_email = ''a@x.com'', register_password = ''pw123456'', register_name = ''A''\<rparr>"
  let ?dto' = "\<lparr>register_email = ''a@x.com'', register_password = ''other'', register_name = ''Z''\<rparr>"
  have fresh: "user_findUnique_email empty_db (register_email ?dto) = None
               \<and> user_findUnique_id empty_db ''u1'' = None"
    by (simp add: user_findUnique_email_def user_findUnique_id_def empty_db_def)
  note contract = register_contract [of empty_db ?dto demo 100 1 2 "''u1''" 101 3 4 "''u2''"]
  from contract fresh obtain res where
    res: "fst (AuthService_register demo 100 1 2 ''u1'' empty_db ?dto) = Inr res"
    by blast
  with contract have
    "user res = \<lparr>summary_id = ''u1'', summary_email = ''a@x.com'', summary_name = ''A''\<rparr>
     \<and> accessToken res = alice_access \<and> refreshToken res = alice_refresh"
    by (simp add: generateTokens_alice)
  then have shape: "res = \<lparr>accessToken = alice_access, refreshToken = alice_refresh,
              user = \<lparr>summary_id = ''u1'', summary_email = ''a@x.com'', summary_name = ''A''\<rparr>\<rparr>"
    by (cases res) simp
  have "register_email ?dto' = register_email ?dto"
    by simp
  with contract fresh have second:
    "fst (AuthService_register demo 101 3 4 ''u2''
            (fst (snd (AuthService_register demo 100 1 2 ''u1'' empty_db ?dto))) ?dto')
       = Inl (HttpException ''Email already exists'' CONFLICT)"
    by blast
  show ?thesis
    using fresh res shape second by simp
qed

section \<open>Updating and deleting a post\<close>

text \<open>
  Claim C6: for every post id and acting user, \<open>update\<close> and \<open>remove\<close> fail Not-Found when
  no post has the id; they fail Forbidden when the post exists and its author is another
  user, so the existence check comes first; otherwise they succeed: \<open>update\<close> stores and
  returns the post with the fields given in the DTO replaced and the others (id, author,
  file, creation time) kept, and \<open>remove\<close> deletes the post record. A failed call leaves the
  store as it was.
\<close>

theorem post_mutation_guard:
  "(post_findUnique d i = None \<longrightarrow>
      PostsService_update d now i uid dto = (Inl (HttpException ''Post not found'' NOT_FOUND), d)
    \<and> PostsService_remove S d i uid = (Inl (HttpException ''Post not found'' NOT_FOUND), d))
 \<and> (\<forall>p. post_findUnique d i = Some p \<and> post_authorId p \<noteq> uid \<longrightarrow>
      PostsService_update d now i uid dto =
        (Inl (HttpException ''You can only update your own posts'' FORBIDDEN), d)
    \<and> PostsService_remove S d i uid =
        (Inl (HttpException ''You can only delete your own posts'' FORBIDDEN), d))
 \<and> (\<forall>p. post_findUnique d i = Some p \<and> post_authorId p = uid \<longrightarrow>
      (\<exists>q. fst (PostsService_update d now i uid dto) = Inr (q, author_of d uid)
         \<and> post_findUnique (snd (PostsService_update d now i uid dto)) i = Some q
         \<and> post_title q = (case update_title dto of None \<Rightarrow> post_title p | Some t \<Rightarrow> t)
         \<and> post_content q = (case update_content dto of None \<Rightarrow> post_content p | Some c \<Rightarrow> c)
         \<and> post_published q = (case update_published dto of None \<Rightarrow> post_published p | Some b \<Rightarrow> b)
         \<and> post_id q = i \<and> post_authorId q = uid \<and> post_fileUrl q = post_fileUrl p
         \<and> post_createdAt q = post_createdAt p)
    \<and> fst (PostsService_remove S d i uid) = Inr ''Post deleted successfully''
    \<and> post_findUnique (snd (PostsService_remove S d i uid)) i = None
    \<and> posts (snd (PostsService_remove S d i uid)) = filter (\<lambda>q. post_id q \<noteq> i) (posts d))"
proof -
  have absent: "PostsService_update d now i uid dto = (Inl (HttpException ''Post not found'' NOT_FOUND), d)
      \<and> PostsService_remove S d i uid = (Inl (HttpException ''Post not found'' NOT_FOUND), d)"
    if "post_findUnique d i = None"
    using that by (simp add: PostsService_update_def PostsService_remove_def NotFoundException_def)
  have foreign: "PostsService_update d now i uid dto =
        (Inl (HttpException ''You can only update your own posts'' FORBIDDEN), d)
      \<and> PostsService_remove S d i uid =
        (Inl (HttpException ''You can only delete your own posts'' FORBIDDEN), d)"
    if "post_findUnique d i = Some p" "post_authorId p \<noteq> uid" for p
    using that by (simp add: PostsService_update_def PostsService_remove_def ForbiddenException_def)
  have own: "(\<exists>q. fst (PostsService_update d now i uid dto) = Inr (q, author_of d uid)
         \<and> post_findUnique (snd (PostsService_update d now i uid dto)) i = Some q
         \<and> post_title q = (case update_title dto of None \<Rightarrow> post_title p | Some t \<Rightarrow> t)
         \<and> post_content q = (case update_content dto of None \<Rightarrow> post_content p | Some c \<Rightarrow> c)
         \<and> post_published q = (case update_published dto of None \<Rightarrow> post_published p | Some b \<Rightarrow> b)
         \<and> post_id q = i \<and> post_authorId q = uid \<and> post_fileUrl q = post_fileUrl p
         \<and> post_createdAt q = post_createdAt p)
    \<and> fst (PostsService_remove S d i uid) = Inr ''Post deleted successfully''
    \<and> post_findUnique (snd (PostsService_remove S d i uid)) i = None
    \<and> posts (snd (PostsService_remove S d i uid)) = filter (\<lambda>q. post_id q \<noteq> i) (posts d)"
    if found: "post_findUnique d i = Some p" and mine: "post_authorId p = uid" for p
  proof -
    have pid: "post_id p = i"
      using found unfolding post_findUnique_def by (rule find_key)
    have upd: "PostsService_update d now i uid dto =
        (Inr (apply_update now dto p, author_of d uid),
         d\<lparr>posts := map (\<lambda>q. if post_id q = i then apply_update now dto q else q) (posts d)\<rparr>)"
      using found mine
      by (simp add: PostsService_update_def post_update_def author_of_def user_findUnique_id_def
            apply_update_def)
    have stored: "post_findUnique (snd (PostsService_update d now i uid dto)) i
        = Some (apply_update now dto p)"
      using found
      by (simp add: upd post_findUnique_def find_map_update [where key = post_id] post_id_apply_update)
    have rem: "PostsService_remove S d i uid =
        (Inr ''Post deleted successfully'',
         d\<lparr>posts := filter (\<lambda>q. post_id q \<noteq> i) (posts d),
           replies := (if cascadeReplies S then filter (\<lambda>r. reply_postId r \<noteq> i) (replies d)
                       else replies d)\<rparr>)"
      using found mine by (simp add: PostsService_remove_def post_delete_def)
    have gone: "post_findUnique (snd (PostsService_remove S d i uid)) i = None"
      by (simp add: rem post_findUnique_def find_filter_other)
    show ?thesis
      using upd stored rem gone pid mine by (simp add: apply_update_def)
  qed
  let "?A \<and> ?B \<and> ?C" = ?thesis
  have A: ?A
    by (rule impI) (rule absent)
  have B: ?B
  proof (intro allI impI)
    fix p
    assume h: "post_findUnique d i = Some p \<and> post_authorId p \<noteq> uid"
    show "PostsService_update d now i uid dto =
        (Inl (HttpException ''You can only update your own posts'' FORBIDDEN), d)
      \<and> PostsService_remove S d i uid =
        (Inl (HttpException ''You can only delete your own posts'' FORBIDDEN), d)"
      by (rule foreign [OF conjunct1 [OF h] conjunct2 [OF h]])
  qed
  have C: ?C
  proof (rule allI, rule impI)
    fix p
    assume h: "post_findUnique d i = Some p \<and> post_authorId p = uid"
    from own [OF conjunct1 [OF h] conjunct2 [OF h]]
    show "(\<exists>q. fst (PostsService_update d now i uid dto) = Inr (q, author_of d uid)
         \<and> post_findUnique (snd (PostsService_update d now i uid dto)) i = Some q
         \<and> post_title q = (case update_title dto of None \<Rightarrow> post_title p | Some t \<Rightarrow> t)
         \<and> post_content q = (case update_content dto of None \<Rightarrow> post_content p | Some c \<Rightarrow> c)
         \<and> post_published q = (case update_published dto of None \<Rightarrow> post_published p | Some b \<Rightarrow> b)
         \<and> post_id q = i \<and> post_authorId q = uid \<and> post_fileUrl q = post_fileUrl p
         \<and> post_createdAt q = post_createdAt p)
      \<and> fst (PostsService_remove S d i uid) = Inr ''Post deleted successfully''
      \<and> post_findUnique (snd (PostsService_remove S d i uid)) i = None
      \<and> posts (snd (PostsService_remove S d i uid)) = filter (\<lambda>q. post_id q \<noteq> i) (posts d)" .
  qed
  show ?thesis
    by (rule conjI [OF A conjI [OF B C]])
qed

theorem post_mutation_guard_witness:
  "post_findUnique sample_db ''p9'' = None
   \<and> fst (PostsService_update sample_db 50 ''p9'' ''u1''
            \<lparr>update_title = Some ''New'', update_content = None, update_published = None\<rparr>)
       = Inl (HttpException ''Post not found'' NOT_FOUND)
   \<and> fst (PostsService_remove sample_schema sample_db ''p9'' ''u1'')
       = Inl (HttpException ''Post not found'' NOT_FOUND)
   \<and> post_findUnique sample_db ''p1'' = Some post1 \<and> post_authorId post1 \<noteq> ''u2''
   \<and> fst (PostsService_update sample_db 50 ''p1'' ''u2''
            \<lparr>update_title = Some ''New'', update_content = None, update_published = None\<rparr>)
       = Inl (HttpException ''You can only update your own posts'' FORBIDDEN)
   \<and> fst (PostsService_remove sample_schema sample_db ''p1'' ''u2'')
       = Inl (HttpException ''You can only delete your own posts'' FORBIDDEN)
   \<and> post_authorId post1 = ''u1''
   \<and> (\<exists>q. post_findUnique (snd (PostsService_update sample_db 50 ''p1'' ''u1''
            \<lparr>update_title = Some ''New'', update_content = None, update_published = None\<rparr>)) ''p1''
          = Some q \<and> post_title q = ''New'' \<and> post_content q = post_content post1)
   \<and> fst (PostsService_remove sample_schema sample_db ''p1'' ''u1'') = Inr ''Post deleted successfully''
   \<and> post_findUnique (snd (PostsService_remove sample_schema sample_db ''p1'' ''u1'')) ''p1'' = None"
proof -
  let ?dto = "\<lparr>update_title = Some ''New'', update_content = None, update_published = None\<rparr>"
  have absent: "post_findUnique sample_db ''p9'' = None"
    by (simp add: post_findUnique_def sample_db_def post1_def post2_def)
  have author: "post_authorId post1 = ''u1''"
    by (simp add: post1_def)
  have c1: "fst (PostsService_update sample_db 50 ''p9'' ''u1'' ?dto)
              = Inl (HttpException ''Post not found'' NOT_FOUND)
          \<and> fst (PostsService_remove sample_schema sample_db ''p9'' ''u1'')
              = Inl (HttpException ''Post not found'' NOT_FOUND)"
    using absent post_mutation_guard [of sample_db "''p9''" 50 "''u1''" ?dto sample_schema]
    by simp
  have c2: "fst (PostsService_update sample_db 50 ''p1'' ''u2'' ?dto)
              = Inl (HttpException ''You can only update your own posts'' FORBIDDEN)
          \<and> fst (PostsService_remove sample_schema sample_db ''p1'' ''u2'')
              = Inl (HttpException ''You can only delete your own posts'' FORBIDDEN)"
    using sample_post author post_mutation_guard [of sample_db "''p1''" 50 "''u2''" ?dto sample_schema]
    by simp
  have c3: "(\<exists>q. post_findUnique (snd (PostsService_update sample_db 50 ''p1'' ''u1'' ?dto)) ''p1''
          = Some q \<and> post_title q = ''New'' \<and> post_content q = post_content post1)
      \<and> fst (PostsService_remove sample_schema sample_db ''p1'' ''u1'') = Inr ''Post deleted successfully''
      \<and> post_findUnique (snd (PostsService_remove sample_schema sample_db ''p1'' ''u1'')) ''p1'' = None"
    using sample_post author post_mutation_guard [of sample_db "''p1''" 50 "''u1''" ?dto sample_schema]
    by auto
  show ?thesis
    using absent sample_post author c1 c2 c3 by simp
qed

section \<open>Deleting a reply\<close>

text \<open>
  Claim C7: \<open>deleteReply\<close> fails Not-Found when no reply has the id; for an existing reply
  it fails Forbidden for every acting user other than the reply's author, in particular for
  the author of the parent post; it succeeds, removing the reply, when the acting user is
  the reply's author, and only then.
\<close>

theorem deleteReply_ownership:
  "(reply_findUnique d rid = None \<longrightarrow>
      PostsService_deleteReply d rid uid = (Inl (HttpException ''Reply not found'' NOT_FOUND), d))
 \<and> (\<forall>r. reply_findUnique d rid = Some r \<and> reply_authorId r \<noteq> uid \<longrightarrow>
      PostsService_deleteReply d rid uid =
        (Inl (HttpException ''You can only delete your own replies'' FORBIDDEN), d))
 \<and> (\<forall>r p. reply_findUnique d rid = Some r \<and> reply_authorId r \<noteq> uid \<and>
          post_findUnique d (reply_postId r) = Some p \<and> post_authorId p = uid \<longrightarrow>
      PostsService_deleteReply d rid uid =
        (Inl (HttpException ''You can only delete your own replies'' FORBIDDEN), d))
 \<and> (\<forall>r. reply_findUnique d rid = Some r \<and> reply_authorId r = uid \<longrightarrow>
      PostsService_deleteReply d rid uid =
        (Inr ''Reply deleted successfully'', d\<lparr>replies := filter (\<lambda>x. reply_id x \<noteq> rid) (replies d)\<rparr>)
      \<and> reply_findUnique (snd (PostsService_deleteReply d rid uid)) rid = None)
 \<and> (\<forall>m. fst (PostsService_deleteReply d rid uid) = Inr m \<longrightarrow>
      (\<exists>r. reply_findUnique d rid = Some r \<and> reply_authorId r = uid))"
  by (auto simp: PostsService_deleteReply_def reply_delete_def NotFoundException_def
        ForbiddenException_def reply_findUnique_def find_filter_other split: option.splits)

theorem deleteReply_ownership_witness:
  "reply_findUnique sample_db ''r9'' = None
   \<and> PostsService_deleteReply sample_db ''r9'' ''u2''
       = (Inl (HttpException ''Reply not found'' NOT_FOUND), sample_db)
   \<and> reply_findUnique sample_db ''r1'' = Some reply1 \<and> reply_authorId reply1 \<noteq> ''u1''
   \<and> post_findUnique sample_db (reply_postId reply1) = Some post1 \<and> post_authorId post1 = ''u1''
   \<and> PostsService_deleteReply sample_db ''r1'' ''u1''
       = (Inl (HttpException ''You can only delete your own replies'' FORBIDDEN), sample_db)
   \<and> reply_authorId reply1 = ''u2''
   \<and> fst (PostsService_deleteReply sample_db ''r1'' ''u2'') = Inr ''Reply deleted successfully''
   \<and> reply_findUnique (snd (PostsService_deleteReply sample_db ''r1'' ''u2'')) ''r1'' = None"
proof -
  have absent: "reply_findUnique sample_db ''r9'' = None"
    by (simp add: reply_findUnique_def sample_db_def reply1_def)
  have parent: "post_findUnique sample_db (reply_postId reply1) = Some post1"
    using sample_post by (simp add: reply1_def)
  have author: "reply_authorId reply1 = ''u2''" "post_authorId post1 = ''u1''"
    by (simp_all add: reply1_def post1_def)
  show ?thesis
    using absent parent author sample_reply
      deleteReply_ownership [of sample_db "''r9''" "''u2''"]
      deleteReply_ownership [of sample_db "''r1''" "''u1''"]
      deleteReply_ownership [of sample_db "''r1''" "''u2''"]
    by auto
qed

section \<open>Listing posts\<close>

text \<open>The ordering of \<open>findMany\<close> is newest first and rearranges the posts it is given.\<close>

lemma newest_first_sorted:
  "sorted_wrt (\<lambda>a b. post_createdAt b \<le> post_createdAt a) (newest_first ps)"
proof -
  have "sorted (map post_createdAt (sort_key post_createdAt ps))"
    by (rule sorted_sort_key)
  then have "sorted_wrt (\<lambda>a b. post_createdAt a \<le> post_createdAt b) (sort_key post_createdAt ps)"
    by (simp add: sorted_wrt_map)
  then show ?thesis
    by (simp add: newest_first_def sorted_wrt_rev)
qed

lemma newest_first_mset: "mset (newest_first ps) = mset ps"
  by (simp add: newest_first_def)

lemma newest_first_length: "length (newest_first ps) = length ps"
  by (simp add: newest_first_def)


lemma findAll_in_range:
  assumes "1 \<le> page" and "0 \<le> lim"
  shows "PostsService_findAll S d page lim search =
     Inr \<lparr>result_posts = map (\<lambda>p. (p, author_of d (post_authorId p), reply_count d p))
             (take (nat lim) (drop (nat ((page - 1) * lim))
                (newest_first (filter (search_filter search) (posts d))))),
          result_total = length (filter (search_filter search) (posts d)),
          result_page = page, result_limit = lim,
          result_totalPages = ceil_div (length (filter (search_filter search) (posts d))) lim\<rparr>"
proof -
  have skip: "\<not> (page - 1) * lim < 0"
    using assms by (simp add: not_less)
  have tk: "\<not> lim < 0"
    using assms by simp
  show ?thesis
    unfolding PostsService_findAll_def post_findMany_def post_count_def Let_def
    by (simp only: skip tk simp_thms if_False sum.case)
qed

lemma sample_newest_first: "newest_first (posts sample_db) = [post2, post1]"
  by (simp add: newest_first_def sample_db_def post1_def post2_def)

text \<open>
  Claim C8: \<open>findAll\<close> with page 1 and limit 10 and no search text returns the number of
  stored posts as total, echoes page 1 and limit 10, and returns \<open>min N 10\<close> posts, the
  first ten in newest-first order. In general, for a page of at least 1 and a limit of at
  least 0, the returned page is the newest-first ordering of the matching posts with the
  first \<open>(page - 1) * limit\<close> skipped and at most \<open>limit\<close> taken, it is ordered by
  creation time descending, and total counts the matching posts. The newest-first ordering is
  a rearrangement of the posts, descending in creation time.
\<close>

theorem findAll_pagination:
  "(\<exists>r. PostsService_findAll S d 1 10 None = Inr r
        \<and> result_total r = length (posts d) \<and> result_page r = 1 \<and> result_limit r = 10
        \<and> length (result_posts r) = min (length (posts d)) 10
        \<and> map fst (result_posts r) = take 10 (newest_first (posts d)))
   \<and> (1 \<le> page \<and> 0 \<le> lim \<longrightarrow>
        (\<exists>r. PostsService_findAll S d page lim search = Inr r
           \<and> map fst (result_posts r) =
               take (nat lim) (drop (nat ((page - 1) * lim))
                 (newest_first (filter (search_filter search) (posts d))))
           \<and> sorted_wrt (\<lambda>a b. post_createdAt b \<le> post_createdAt a) (map fst (result_posts r))
           \<and> result_total r = length (filter (search_filter search) (posts d))
           \<and> result_page r = page \<and> result_limit r = lim))
   \<and> sorted_wrt (\<lambda>a b. post_createdAt b \<le> post_createdAt a) (newest_first ps)
   \<and> mset (newest_first ps) = mset ps"
proof -
  have first: "\<exists>r. PostsService_findAll S d 1 10 None = Inr r
        \<and> result_total r = length (posts d) \<and> result_page r = 1 \<and> result_limit r = 10
        \<and> length (result_posts r) = min (length (posts d)) 10
        \<and> map fst (result_posts r) = take 10 (newest_first (posts d))"
    by (simp add: findAll_in_range search_filter_def newest_first_length o_def)
  have general: "\<exists>r. PostsService_findAll S d page lim search = Inr r
           \<and> map fst (result_posts r) =
               take (nat lim) (drop (nat ((page - 1) * lim))
                 (newest_first (filter (search_filter search) (posts d))))
           \<and> sorted_wrt (\<lambda>a b. post_createdAt b \<le> post_createdAt a) (map fst (result_posts r))
           \<and> result_total r = length (filter (search_filter search) (posts d))
           \<and> result_page r = page \<and> result_limit r = lim"
    if "1 \<le> page" "0 \<le> lim"
    using that
    by (simp add: findAll_in_range o_def newest_first_sorted)
  show ?thesis
    using first general newest_first_sorted newest_first_mset by simp
qed

theorem findAll_pagination_witness:
  "(1::int) \<le> 2 \<and> (0::int) \<le> 1
   \<and> (\<exists>r. PostsService_findAll sample_schema sample_db 1 10 None = Inr r
          \<and> result_total r = 2 \<and> result_page r = 1 \<and> result_limit r = 10
          \<and> length (result_posts r) = 2 \<and> map fst (result_posts r) = [post2, post1])
   \<and> (\<exists>r. PostsService_findAll sample_schema sample_db 2 1 None = Inr r
          \<and> map fst (result_posts r) = [post1] \<and> result_total r = 2
          \<and> result_page r = 2 \<and> result_limit r = 1)"
proof -
  have everything: "filter (search_filter None) (posts sample_db) = posts sample_db"
    by (simp add: search_filter_def)
  have two: "length (posts sample_db) = 2"
    by (simp add: sample_db_def)
  show ?thesis
    using findAll_pagination [of sample_schema sample_db 2 1 None "[]"]
    by (auto simp: everything two sample_newest_first)
qed

section \<open>Notifications\<close>







section \<open>The reply-deletion endpoint\<close>

text \<open>
  Claim C10: the endpoint passes only the reply id and the acting user to \<open>deleteReply\<close>.
  For a reply owned by the acting user the deletion succeeds for every \<open>postId\<close> in the
  path, with the same outcome as for the reply's actual parent post.
\<close>

theorem controller_ignores_postId:
  assumes "reply_findUnique d replyId = Some r"
      and "reply_authorId r = userId req"
  shows "PostsController_deleteReply d postId replyId req =
           (Inr ''Reply deleted successfully'',
            d\<lparr>replies := filter (\<lambda>x. reply_id x \<noteq> replyId) (replies d)\<rparr>)
       \<and> PostsController_deleteReply d postId replyId req =
           PostsController_deleteReply d (reply_postId r) replyId req"
  using assms
  by (simp add: PostsController_deleteReply_def PostsService_deleteReply_def reply_delete_def)

theorem controller_ignores_postId_witness:
  "reply_findUnique sample_db ''r1'' = Some reply1
   \<and> reply_authorId reply1 = userId \<lparr>userId = ''u2'', req_email = ''b@x.com'', req_name = ''B''\<rparr>
   \<and> reply_postId reply1 \<noteq> ''p2''
   \<and> PostsController_deleteReply sample_db ''p2'' ''r1''
        \<lparr>userId = ''u2'', req_email = ''b@x.com'', req_name = ''B''\<rparr>
       = (Inr ''Reply deleted successfully'', sample_db\<lparr>replies := []\<rparr>)"
proof -
  have owner: "reply_authorId reply1 = userId \<lparr>userId = ''u2'', req_email = ''b@x.com'', req_name = ''B''\<rparr>"
    by (simp add: reply1_def)
  have other: "reply_postId reply1 \<noteq> ''p2''"
    by (simp add: reply1_def)
  have rest: "filter (\<lambda>x. reply_id x \<noteq> ''r1'') (replies sample_db) = []"
    by (simp add: sample_db_def reply1_def)
  show ?thesis
    using owner other rest controller_ignores_postId [OF sample_reply owner, of "''p2''"]
    by (simp add: sample_reply)
qed

end
